theory Spec2Isabelle
  imports Complex_Main "HOL-Library.Word" "HOL-Library.Sublist" "HOL-Library.Monad_Syntax"
begin

unbundle bit_operations_syntax

section \<open>JavaScript values and operators used by the recipe library\<close>

text \<open>
  The logic functions of \<^verbatim>\<open>src/App.js\<close> read entries of the \<^verbatim>\<open>inputs\<close> array and combine
  them with \<^verbatim>\<open>&\<close>, \<^verbatim>\<open>|\<close>, \<^verbatim>\<open>^\<close>, \<^verbatim>\<open>!\<close>, \<^verbatim>\<open>*\<close>, \<^verbatim>\<open>+\<close>, \<^verbatim>\<open>>>\<close>, \<^verbatim>\<open>===\<close>, \<^verbatim>\<open>>\<close>, \<^verbatim>\<open><\<close> and
  \<^verbatim>\<open>&&\<close>. An entry is one of the primitive values \<^verbatim>\<open>undefined\<close> (also what a missing
  entry reads as), \<^verbatim>\<open>null\<close>, a boolean, a number, a BigInt or a Symbol. Numbers are the
  integers together with \<^verbatim>\<open>NaN\<close>: the switches of the application only ever store 0 and 1,
  and \<^verbatim>\<open>*\<close> and \<^verbatim>\<open>+\<close> are exact on integers as long as the magnitudes stay below
  \<open>2 ^ 53\<close>. Strings and objects are not modelled.
\<close>

datatype jsval = JUndef | JNull | JBool bool | JNum int | JNaN | JBigInt int | JSymbol nat

text \<open>\<^verbatim>\<open>ToBoolean\<close>: what \<^verbatim>\<open>if (v)\<close>, \<^verbatim>\<open>!v\<close>, \<^verbatim>\<open>v ? a : b\<close> and \<^verbatim>\<open>v || d\<close> test.\<close>

fun truthy :: "jsval \<Rightarrow> bool" where
  "truthy JUndef = False"
| "truthy JNull = False"
| "truthy (JBool b) = b"
| "truthy (JNum n) = (n \<noteq> 0)"
| "truthy JNaN = False"
| "truthy (JBigInt n) = (n \<noteq> 0)"
| "truthy (JSymbol s) = True"

text \<open>
  \<^verbatim>\<open>ToNumeric\<close>: a number (\<open>Number None\<close> is \<^verbatim>\<open>NaN\<close>) or a BigInt. On a Symbol it throws
  a \<^verbatim>\<open>TypeError\<close>. For every operator below that can throw, \<open>None\<close> is that thrown
  \<^verbatim>\<open>TypeError\<close>; nothing else is ever thrown by them.
\<close>

datatype numeric = Number "int option" | BigInt int

fun ToNumeric :: "jsval \<Rightarrow> numeric option" where
  "ToNumeric JUndef = Some (Number None)"
| "ToNumeric JNull = Some (Number (Some 0))"
| "ToNumeric (JBool b) = Some (Number (Some (if b then 1 else 0)))"
| "ToNumeric (JNum n) = Some (Number (Some n))"
| "ToNumeric JNaN = Some (Number None)"
| "ToNumeric (JBigInt n) = Some (BigInt n)"
| "ToNumeric (JSymbol s) = None"

text \<open>\<^verbatim>\<open>ToInt32\<close> of a number: \<^verbatim>\<open>NaN\<close> becomes 0, an integer is reduced modulo \<open>2 ^ 32\<close>.\<close>

definition ToInt32 :: "int option \<Rightarrow> 32 word" where
  "ToInt32 n = (case n of None \<Rightarrow> 0 | Some m \<Rightarrow> word_of_int m)"

text \<open>
  A binary numeric operator: both operands go through \<^verbatim>\<open>ToNumeric\<close>, the left one first;
  two numbers or two BigInts are combined, and a number with a BigInt is a \<^verbatim>\<open>TypeError\<close>
  (``Cannot mix BigInt and other types'').
\<close>

definition numeric_op ::
  "(int option \<Rightarrow> int option \<Rightarrow> jsval) \<Rightarrow> (int \<Rightarrow> int \<Rightarrow> int) \<Rightarrow> jsval \<Rightarrow> jsval \<Rightarrow> jsval option" where
  "numeric_op on_numbers on_bigints a b =
     (case ToNumeric a of
        None \<Rightarrow> None
      | Some x \<Rightarrow>
          (case ToNumeric b of
             None \<Rightarrow> None
           | Some y \<Rightarrow>
               (case (x, y) of
                  (Number m, Number n) \<Rightarrow> Some (on_numbers m n)
                | (BigInt m, BigInt n) \<Rightarrow> Some (JBigInt (on_bigints m n))
                | _ \<Rightarrow> None)))"

definition js_and :: "jsval \<Rightarrow> jsval \<Rightarrow> jsval option" where
  "js_and = numeric_op (\<lambda>m n. JNum (sint (ToInt32 m AND ToInt32 n))) (\<lambda>m n. m AND n)"

definition js_or :: "jsval \<Rightarrow> jsval \<Rightarrow> jsval option" where
  "js_or = numeric_op (\<lambda>m n. JNum (sint (ToInt32 m OR ToInt32 n))) (\<lambda>m n. m OR n)"

definition js_xor :: "jsval \<Rightarrow> jsval \<Rightarrow> jsval option" where
  "js_xor = numeric_op (\<lambda>m n. JNum (sint (ToInt32 m XOR ToInt32 n))) (\<lambda>m n. m XOR n)"

text \<open>
  \<^verbatim>\<open>a >> k\<close>: on numbers the arithmetic shift of \<^verbatim>\<open>ToInt32(a)\<close> by the low five bits of
  \<^verbatim>\<open>k\<close>; on BigInts the shift of the unbounded integer, to the left for a negative \<^verbatim>\<open>k\<close>.
\<close>

definition js_shr :: "jsval \<Rightarrow> jsval \<Rightarrow> jsval option" where
  "js_shr =
     numeric_op
       (\<lambda>m k. JNum (sint (signed_drop_bit (unat (ToInt32 k AND 31)) (ToInt32 m))))
       (\<lambda>m k. if 0 \<le> k then drop_bit (nat k) m else push_bit (nat (- k)) m)"

text \<open>Arithmetic on numbers: \<^verbatim>\<open>NaN\<close> when an operand is \<^verbatim>\<open>NaN\<close>.\<close>

definition number_op :: "(int \<Rightarrow> int \<Rightarrow> int) \<Rightarrow> int option \<Rightarrow> int option \<Rightarrow> jsval" where
  "number_op f m n = (case (m, n) of (Some x, Some y) \<Rightarrow> JNum (f x y) | _ \<Rightarrow> JNaN)"

definition js_mul :: "jsval \<Rightarrow> jsval \<Rightarrow> jsval option" where
  "js_mul = numeric_op (number_op (\<lambda>x y. x * y)) (\<lambda>x y. x * y)"

text \<open>\<^verbatim>\<open>a + b\<close> on operands that are not strings is numeric addition.\<close>

definition js_add :: "jsval \<Rightarrow> jsval \<Rightarrow> jsval option" where
  "js_add = numeric_op (number_op (\<lambda>x y. x + y)) (\<lambda>x y. x + y)"

text \<open>
  Relational operators: both operands go through \<^verbatim>\<open>ToNumeric\<close>; a number and a BigInt
  are compared by their values, and a comparison with \<^verbatim>\<open>NaN\<close> is false.
\<close>

fun value_of :: "numeric \<Rightarrow> int option" where
  "value_of (Number m) = m"
| "value_of (BigInt n) = Some n"

definition compare_op :: "(int \<Rightarrow> int \<Rightarrow> bool) \<Rightarrow> jsval \<Rightarrow> jsval \<Rightarrow> jsval option" where
  "compare_op rel a b =
     (case ToNumeric a of
        None \<Rightarrow> None
      | Some x \<Rightarrow>
          (case ToNumeric b of
             None \<Rightarrow> None
           | Some y \<Rightarrow>
               (case (value_of x, value_of y) of
                  (Some m, Some n) \<Rightarrow> Some (JBool (rel m n))
                | _ \<Rightarrow> Some (JBool False))))"

definition js_gt :: "jsval \<Rightarrow> jsval \<Rightarrow> jsval option" where
  "js_gt = compare_op (\<lambda>m n. m > n)"

definition js_lt :: "jsval \<Rightarrow> jsval \<Rightarrow> jsval option" where
  "js_lt = compare_op (\<lambda>m n. m < n)"

text \<open>
  Strict equality \<^verbatim>\<open>===\<close>: same type and same value, and \<^verbatim>\<open>NaN\<close> equals nothing. It
  never throws, and neither do \<^verbatim>\<open>!\<close> and \<^verbatim>\<open>&&\<close>.
\<close>

fun strict_equal :: "jsval \<Rightarrow> jsval \<Rightarrow> bool" where
  "strict_equal JUndef JUndef = True"
| "strict_equal JNull JNull = True"
| "strict_equal (JBool a) (JBool b) = (a = b)"
| "strict_equal (JNum m) (JNum n) = (m = n)"
| "strict_equal (JBigInt m) (JBigInt n) = (m = n)"
| "strict_equal (JSymbol s) (JSymbol t) = (s = t)"
| "strict_equal _ _ = False"

definition js_seq :: "jsval \<Rightarrow> jsval \<Rightarrow> jsval" where
  "js_seq a b = JBool (strict_equal a b)"

definition js_not :: "jsval \<Rightarrow> jsval" where
  "js_not a = JBool (\<not> truthy a)"

text \<open>\<^verbatim>\<open>a && b\<close> yields \<^verbatim>\<open>a\<close> when \<^verbatim>\<open>a\<close> is falsy and \<^verbatim>\<open>b\<close> otherwise.\<close>

definition js_land :: "jsval \<Rightarrow> jsval \<Rightarrow> jsval" where
  "js_land a b = (if truthy a then b else a)"


section \<open>Arrays in a store\<close>

text \<open>
  A JavaScript array is an object that is passed by reference, so a logic function could
  write to the \<^verbatim>\<open>inputs\<close> array it receives or keep an array between calls. The store
  makes this explicit: it holds every array allocated so far, an address is the position
  of an array in it, an array literal allocates at the end, and an indexed assignment
  replaces the array at its address. An array slot is \<open>None\<close> for a hole of a sparse
  array; reading a hole or reading past the end gives \<^verbatim>\<open>undefined\<close>.
\<close>

type_synonym jsarray = "jsval option list"
type_synonym addr = nat
type_synonym store = "jsarray list"

definition array_at :: "store \<Rightarrow> addr \<Rightarrow> jsarray" where
  "array_at st a = (if a < length st then st ! a else [])"

text \<open>\<^verbatim>\<open>xs[k]\<close> for a literal index \<open>k\<close>.\<close>

definition elem :: "jsarray \<Rightarrow> nat \<Rightarrow> jsval" where
  "elem xs k = (if k < length xs then (case xs ! k of Some v \<Rightarrow> v | None \<Rightarrow> JUndef)
                else JUndef)"

definition get :: "store \<Rightarrow> addr \<Rightarrow> nat \<Rightarrow> jsval" where
  "get st a k = elem (array_at st a) k"

text \<open>The array literal \<^verbatim>\<open>[v1, ..., vn]\<close>: a fresh array without holes.\<close>

definition new_array :: "jsval list \<Rightarrow> store \<Rightarrow> addr \<times> store" where
  "new_array vs st = (length st, st @ [map Some vs])"

text \<open>
  \<^verbatim>\<open>arr[k] = v\<close> for a computed key \<open>k\<close>. A key that is an integer in \<open>0 .. 2^32 - 2\<close>, as
  a number or as a BigInt, is an array index: the slot is overwritten, and an index past
  the end lengthens the array, leaving holes in between. Any other key (\<^verbatim>\<open>NaN\<close>, a
  negative number, \<^verbatim>\<open>undefined\<close>, a Symbol) names an ordinary property, which no code of
  the application reads back, so the slots stay as they are.
\<close>

definition set_slot :: "jsarray \<Rightarrow> int \<Rightarrow> jsval \<Rightarrow> jsarray" where
  "set_slot xs n v =
     (if 0 \<le> n \<and> n < 2 ^ 32 - 1 then
        (if nat n < length xs then xs[nat n := Some v]
         else xs @ replicate (nat n - length xs) None @ [Some v])
      else xs)"

definition set_index :: "jsarray \<Rightarrow> jsval \<Rightarrow> jsval \<Rightarrow> jsarray" where
  "set_index xs k v =
     (case k of
        JNum n \<Rightarrow> set_slot xs n v
      | JBigInt n \<Rightarrow> set_slot xs n v
      | _ \<Rightarrow> xs)"

definition assign_index :: "addr \<Rightarrow> jsval \<Rightarrow> jsval \<Rightarrow> store \<Rightarrow> store" where
  "assign_index a k v st = st[a := set_index (array_at st a) k v]"

text \<open>\<^verbatim>\<open>arr.map(f)\<close>: a fresh array of the same length; holes stay holes.\<close>

definition array_map :: "(jsval \<Rightarrow> jsval) \<Rightarrow> addr \<Rightarrow> store \<Rightarrow> addr \<times> store" where
  "array_map f a st = (length st, st @ [map (map_option f) (array_at st a)])"


section \<open>Completions\<close>

datatype js_error = TypeError | Thrown jsval

datatype 'a completion = Return 'a | Throw js_error

text \<open>A function of the application that takes an array and returns one.\<close>

type_synonym logic_fn = "addr \<Rightarrow> store \<Rightarrow> addr completion \<times> store"

text \<open>\<^verbatim>\<open>return [v1, ..., vn]\<close>.\<close>

definition return_array :: "jsval list \<Rightarrow> store \<Rightarrow> addr completion \<times> store" where
  "return_array vs st = (case new_array vs st of (a, st') \<Rightarrow> (Return a, st'))"

text \<open>
  \<^verbatim>\<open>return [e1, ..., en]\<close> where the expressions can throw: when one does, nothing is
  allocated and the \<^verbatim>\<open>TypeError\<close> leaves the function.
\<close>

definition return_computed :: "jsval list option \<Rightarrow> store \<Rightarrow> addr completion \<times> store" where
  "return_computed r st =
     (case r of None \<Rightarrow> (Throw TypeError, st) | Some vs \<Rightarrow> return_array vs st)"

text \<open>\<^verbatim>\<open>try { body } catch { handler }\<close>: the handler runs in the store the body left.\<close>

definition try_catch ::
  "(store \<Rightarrow> 'a completion \<times> store) \<Rightarrow> (store \<Rightarrow> 'a completion \<times> store)
     \<Rightarrow> store \<Rightarrow> 'a completion \<times> store" where
  "try_catch body handler st =
     (case body st of
        (Return v, st') \<Rightarrow> (Return v, st')
      | (Throw err, st') \<Rightarrow> handler st')"


section \<open>The logic functions of the recipe library\<close>

text \<open>
  Each definition is the arrow function of the \<^verbatim>\<open>logic\<close> field of the recipe it is named
  after; \<open>i\<close> is the address of the array the function receives. The expressions are
  evaluated in the order of the source, each operator that can throw in a step of its own.
\<close>

definition basic_gates_logic :: logic_fn where
  "basic_gates_logic i st =
     return_computed (do {
       a \<leftarrow> js_and (get st i 0) (get st i 1);
       b \<leftarrow> js_or (get st i 0) (get st i 1);
       Some [a, b] }) st"

definition not_using_nand_logic :: logic_fn where
  "not_using_nand_logic i st = return_array [js_not (get st i 0)] st"

definition and_using_nand_logic :: logic_fn where
  "and_using_nand_logic i st =
     return_computed (do {
       a \<leftarrow> js_and (get st i 0) (get st i 1);
       Some [js_not (js_not a)] }) st"

definition or_using_nand_logic :: logic_fn where
  "or_using_nand_logic i st =
     return_computed (do { a \<leftarrow> js_or (get st i 0) (get st i 1); Some [a] }) st"

definition not_using_nor_logic :: logic_fn where
  "not_using_nor_logic i st = return_array [js_not (get st i 0)] st"

definition or_using_nor_logic :: logic_fn where
  "or_using_nor_logic i st =
     return_computed (do { a \<leftarrow> js_or (get st i 0) (get st i 1); Some [a] }) st"

definition and_using_nor_logic :: logic_fn where
  "and_using_nor_logic i st =
     return_computed (do { a \<leftarrow> js_and (get st i 0) (get st i 1); Some [a] }) st"

definition half_adder_logic :: logic_fn where
  "half_adder_logic i st =
     return_computed (do {
       s \<leftarrow> js_xor (get st i 0) (get st i 1);
       c \<leftarrow> js_and (get st i 0) (get st i 1);
       Some [s, c] }) st"

definition full_adder_logic :: logic_fn where
  "full_adder_logic i st =
     return_computed (do {
       x \<leftarrow> js_xor (get st i 0) (get st i 1);
       s \<leftarrow> js_xor x (get st i 2);
       a \<leftarrow> js_and (get st i 0) (get st i 1);
       y \<leftarrow> js_xor (get st i 0) (get st i 1);
       b \<leftarrow> js_and (get st i 2) y;
       c \<leftarrow> js_or a b;
       Some [s, c] }) st"

definition half_subtractor_logic :: logic_fn where
  "half_subtractor_logic i st =
     return_computed (do {
       d \<leftarrow> js_xor (get st i 0) (get st i 1);
       b \<leftarrow> js_and (js_not (get st i 0)) (get st i 1);
       Some [d, b] }) st"

definition full_subtractor_logic :: logic_fn where
  "full_subtractor_logic i st =
     return_computed (do {
       x \<leftarrow> js_xor (get st i 0) (get st i 1);
       diff \<leftarrow> js_xor x (get st i 2);
       a \<leftarrow> js_and (js_not (get st i 0)) (get st i 1);
       y \<leftarrow> js_xor (get st i 0) (get st i 1);
       b \<leftarrow> js_and (js_not y) (get st i 2);
       bout \<leftarrow> js_or a b;
       Some [diff, bout] }) st"

definition multiplier_2bit_logic :: logic_fn where
  "multiplier_2bit_logic i st =
     return_computed (do {
       a1 \<leftarrow> js_mul (get st i 1) (JNum 2);
       a \<leftarrow> js_add (get st i 0) a1;
       b1 \<leftarrow> js_mul (get st i 3) (JNum 2);
       b \<leftarrow> js_add (get st i 2) b1;
       p \<leftarrow> js_mul a b;
       p0 \<leftarrow> js_and p (JNum 1);
       s1 \<leftarrow> js_shr p (JNum 1);
       p1 \<leftarrow> js_and s1 (JNum 1);
       s2 \<leftarrow> js_shr p (JNum 2);
       p2 \<leftarrow> js_and s2 (JNum 1);
       s3 \<leftarrow> js_shr p (JNum 3);
       p3 \<leftarrow> js_and s3 (JNum 1);
       Some [p0, p1, p2, p3] }) st"

definition binary_gray_logic :: logic_fn where
  "binary_gray_logic i st =
     return_computed (do {
       g2 \<leftarrow> js_xor (get st i 0) (get st i 1);
       g1 \<leftarrow> js_xor (get st i 1) (get st i 2);
       g0 \<leftarrow> js_xor (get st i 2) (get st i 3);
       Some [get st i 0, g2, g1, g0] }) st"

definition mux_74153_logic :: logic_fn where
  "mux_74153_logic i st =
     (case do { m \<leftarrow> js_mul (get st i 1) (JNum 2); js_add m (get st i 0) } of
        None \<Rightarrow> (Throw TypeError, st)
      | Some sel \<Rightarrow>
          if truthy (js_seq sel (JNum 0)) then return_array [get st i 2] st
          else if truthy (js_seq sel (JNum 1)) then return_array [get st i 3] st
          else if truthy (js_seq sel (JNum 2)) then return_array [get st i 4] st
          else if truthy (js_seq sel (JNum 3)) then return_array [get st i 5] st
          else return_array [JNum 0] st)"

definition decoder_74139_logic :: logic_fn where
  "decoder_74139_logic i st =
     (if truthy (get st i 2) then return_array [JNum 1, JNum 1, JNum 1, JNum 1] st
      else
        (case do { m \<leftarrow> js_mul (get st i 1) (JNum 2); js_add m (get st i 0) } of
           None \<Rightarrow> (Throw TypeError, st)
         | Some sel \<Rightarrow>
             let (out, st1) = new_array [JNum 1, JNum 1, JNum 1, JNum 1] st;
                 st2 = assign_index out sel (JNum 0) st1;
                 (res, st3) = array_map (\<lambda>v. js_not v) out st2
             in (Return res, st3)))"

definition comparator_7485_logic :: logic_fn where
  "comparator_7485_logic i st =
     return_computed (do {
       a1 \<leftarrow> js_mul (get st i 0) (JNum 2);
       a \<leftarrow> js_add a1 (get st i 1);
       b1 \<leftarrow> js_mul (get st i 2) (JNum 2);
       b \<leftarrow> js_add b1 (get st i 3);
       gt \<leftarrow> js_gt a b;
       lt \<leftarrow> js_lt a b;
       Some [gt, js_seq a b, lt] }) st"

definition d_ff_7474_logic :: logic_fn where
  "d_ff_7474_logic i st =
     (if truthy (js_not (get st i 3)) then return_array [JNum 0, JNum 1] st
      else if truthy (js_not (get st i 2)) then return_array [JNum 1, JNum 0] st
      else return_array [get st i 0, js_not (get st i 0)] st)"

definition jk_ff_7476_logic :: logic_fn where
  "jk_ff_7476_logic i st =
     (let j = get st i 0; k = get st i 1
      in if truthy (js_land j (js_not k)) then return_array [JNum 1, JNum 0] st
         else if truthy (js_land (js_not j) k) then return_array [JNum 0, JNum 1] st
         else if truthy (js_land j k) then return_array [JNum 1, JNum 1] st
         else return_array [JNum 0, JNum 1] st)"

definition counter_mod4_logic :: logic_fn where
  "counter_mod4_logic i st = return_array [get st i 0, js_not (get st i 0)] st"


section \<open>Circuit descriptions\<close>

text \<open>
  A wire end is written in the source either as a string (\<^verbatim>\<open>'VCC'\<close>, \<^verbatim>\<open>'GND'\<close>,
  \<^verbatim>\<open>'SW_0'\<close>, \<^verbatim>\<open>'LED_1'\<close>) or as an object \<^verbatim>\<open>{c: chipIndex, p: pin}\<close>; a field the
  object does not have reads as \<^verbatim>\<open>undefined\<close>, which is \<open>None\<close> here. A generated
  circuit can also leave an end out or give \<^verbatim>\<open>null\<close> for it: \<open>NoEnd\<close>.
\<close>

datatype endpoint = Tok string | PinObj "int option" "int option" | NoEnd

definition pinref :: "int \<Rightarrow> int \<Rightarrow> endpoint" where
  "pinref c p = PinObj (Some c) (Some p)"

datatype wire = MkWire (wire_s: endpoint) (wire_e: endpoint) (color: string)

text \<open>
  A chip \<^verbatim>\<open>{id, type, x}\<close>. The position \<^verbatim>\<open>x\<close> is a grid column, an integer; a chip of a
  generated circuit whose \<^verbatim>\<open>x\<close> is missing or is not a number is not modelled.
\<close>

record chip =
  chip_id :: string
  chip_type :: string
  chip_x :: int

text \<open>
  The \<^verbatim>\<open>logic\<close> field of a circuit: a function, or any other value. The library only has
  functions; a generated circuit gets whatever its \<^verbatim>\<open>logicFuncString\<close> evaluates to, and
  a circuit without the field reads as \<^verbatim>\<open>undefined\<close>.
\<close>

datatype logic_field = LFun logic_fn | LValue jsval

text \<open>
  The fields \<^verbatim>\<open>title\<close>, \<^verbatim>\<open>desc\<close>, \<^verbatim>\<open>explanation\<close> and \<^verbatim>\<open>bom\<close> are display text and are
  left out.
\<close>

record recipe =
  chips :: "chip list"
  inputs :: "string list"
  outputs :: "string list"
  wires :: "wire list"
  logic :: logic_field

text \<open>The second argument of \<^verbatim>\<open>powerWires\<close> is a number or the string \<^verbatim>\<open>'7476'\<close>.\<close>

datatype pins_arg = PinCount int | PinName string

definition powerWires :: "int \<Rightarrow> pins_arg \<Rightarrow> wire list" where
  "powerWires chipIdx pins =
     (if pins = PinCount 14 then
        [MkWire (Tok ''VCC'') (pinref chipIdx 14) ''WIRE_RED'',
         MkWire (Tok ''GND'') (pinref chipIdx 7) ''WIRE_BLACK'']
      else if pins = PinCount 16 then
        [MkWire (Tok ''VCC'') (pinref chipIdx 16) ''WIRE_RED'',
         MkWire (Tok ''GND'') (pinref chipIdx 8) ''WIRE_BLACK'']
      else if pins = PinName ''7476'' then
        [MkWire (Tok ''VCC'') (pinref chipIdx 5) ''WIRE_RED'',
         MkWire (Tok ''GND'') (pinref chipIdx 13) ''WIRE_BLACK'']
      else [])"

definition mk_chip :: "string \<Rightarrow> string \<Rightarrow> int \<Rightarrow> chip" where
  "mk_chip i t xpos = \<lparr>chip_id = i, chip_type = t, chip_x = xpos\<rparr>"

subsection \<open>The recipe library\<close>

definition basic_gates :: recipe where
  "basic_gates = \<lparr>
     chips = [mk_chip ''u1'' ''7408'' 20, mk_chip ''u2'' ''7432'' 35],
     inputs = [''A'', ''B''], outputs = [''AND'', ''OR''],
     wires = powerWires 0 (PinCount 14) @ powerWires 1 (PinCount 14) @
       [MkWire (Tok ''SW_0'') (pinref 0 1) ''WIRE_BLUE'',
        MkWire (Tok ''SW_1'') (pinref 0 2) ''WIRE_ORANGE'',
        MkWire (pinref 0 3) (Tok ''LED_0'') ''WIRE_GREEN'',
        MkWire (Tok ''SW_0'') (pinref 1 1) ''WIRE_BLUE'',
        MkWire (Tok ''SW_1'') (pinref 1 2) ''WIRE_ORANGE'',
        MkWire (pinref 1 3) (Tok ''LED_1'') ''WIRE_GREEN''],
     logic = LFun basic_gates_logic \<rparr>"

definition not_using_nand :: recipe where
  "not_using_nand = \<lparr>
     chips = [mk_chip ''u1'' ''7400'' 25],
     inputs = [''A''], outputs = [''Y''],
     wires = powerWires 0 (PinCount 14) @
       [MkWire (Tok ''SW_0'') (pinref 0 1) ''WIRE_BLUE'',
        MkWire (Tok ''SW_0'') (pinref 0 2) ''WIRE_BLUE'',
        MkWire (pinref 0 3) (Tok ''LED_0'') ''WIRE_GREEN''],
     logic = LFun not_using_nand_logic \<rparr>"

definition and_using_nand :: recipe where
  "and_using_nand = \<lparr>
     chips = [mk_chip ''u1'' ''7400'' 25],
     inputs = [''A'', ''B''], outputs = [''Y''],
     wires = powerWires 0 (PinCount 14) @
       [MkWire (Tok ''SW_0'') (pinref 0 1) ''WIRE_BLUE'',
        MkWire (Tok ''SW_1'') (pinref 0 2) ''WIRE_ORANGE'',
        MkWire (pinref 0 3) (pinref 0 4) ''WIRE_PURPLE'',
        MkWire (pinref 0 3) (pinref 0 5) ''WIRE_PURPLE'',
        MkWire (pinref 0 6) (Tok ''LED_0'') ''WIRE_GREEN''],
     logic = LFun and_using_nand_logic \<rparr>"

definition or_using_nand :: recipe where
  "or_using_nand = \<lparr>
     chips = [mk_chip ''u1'' ''7400'' 25],
     inputs = [''A'', ''B''], outputs = [''Y''],
     wires = powerWires 0 (PinCount 14) @
       [MkWire (Tok ''SW_0'') (pinref 0 1) ''WIRE_BLUE'',
        MkWire (Tok ''SW_0'') (pinref 0 2) ''WIRE_BLUE'',
        MkWire (Tok ''SW_1'') (pinref 0 4) ''WIRE_ORANGE'',
        MkWire (Tok ''SW_1'') (pinref 0 5) ''WIRE_ORANGE'',
        MkWire (pinref 0 3) (pinref 0 9) ''WIRE_PURPLE'',
        MkWire (pinref 0 6) (pinref 0 10) ''WIRE_PURPLE'',
        MkWire (pinref 0 8) (Tok ''LED_0'') ''WIRE_GREEN''],
     logic = LFun or_using_nand_logic \<rparr>"

definition not_using_nor :: recipe where
  "not_using_nor = \<lparr>
     chips = [mk_chip ''u1'' ''7402'' 25],
     inputs = [''A''], outputs = [''Y''],
     wires = powerWires 0 (PinCount 14) @
       [MkWire (Tok ''SW_0'') (pinref 0 2) ''WIRE_BLUE'',
        MkWire (Tok ''SW_0'') (pinref 0 3) ''WIRE_BLUE'',
        MkWire (pinref 0 1) (Tok ''LED_0'') ''WIRE_GREEN''],
     logic = LFun not_using_nor_logic \<rparr>"

definition or_using_nor :: recipe where
  "or_using_nor = \<lparr>
     chips = [mk_chip ''u1'' ''7402'' 25],
     inputs = [''A'', ''B''], outputs = [''Y''],
     wires = powerWires 0 (PinCount 14) @
       [MkWire (Tok ''SW_0'') (pinref 0 2) ''WIRE_BLUE'',
        MkWire (Tok ''SW_1'') (pinref 0 3) ''WIRE_ORANGE'',
        MkWire (pinref 0 1) (pinref 0 5) ''WIRE_PURPLE'',
        MkWire (pinref 0 1) (pinref 0 6) ''WIRE_PURPLE'',
        MkWire (pinref 0 4) (Tok ''LED_0'') ''WIRE_GREEN''],
     logic = LFun or_using_nor_logic \<rparr>"

definition and_using_nor :: recipe where
  "and_using_nor = \<lparr>
     chips = [mk_chip ''u1'' ''7402'' 25],
     inputs = [''A'', ''B''], outputs = [''Y''],
     wires = powerWires 0 (PinCount 14) @
       [MkWire (Tok ''SW_0'') (pinref 0 2) ''WIRE_BLUE'',
        MkWire (Tok ''SW_0'') (pinref 0 3) ''WIRE_BLUE'',
        MkWire (Tok ''SW_1'') (pinref 0 5) ''WIRE_ORANGE'',
        MkWire (Tok ''SW_1'') (pinref 0 6) ''WIRE_ORANGE'',
        MkWire (pinref 0 1) (pinref 0 8) ''WIRE_PURPLE'',
        MkWire (pinref 0 4) (pinref 0 9) ''WIRE_PURPLE'',
        MkWire (pinref 0 10) (Tok ''LED_0'') ''WIRE_GREEN''],
     logic = LFun and_using_nor_logic \<rparr>"

definition half_adder :: recipe where
  "half_adder = \<lparr>
     chips = [mk_chip ''u1'' ''7486'' 20, mk_chip ''u2'' ''7408'' 35],
     inputs = [''A'', ''B''], outputs = [''Sum'', ''Cout''],
     wires = powerWires 0 (PinCount 14) @ powerWires 1 (PinCount 14) @
       [MkWire (Tok ''SW_0'') (pinref 0 1) ''WIRE_BLUE'',
        MkWire (Tok ''SW_1'') (pinref 0 2) ''WIRE_ORANGE'',
        MkWire (pinref 0 3) (Tok ''LED_0'') ''WIRE_GREEN'',
        MkWire (Tok ''SW_0'') (pinref 1 1) ''WIRE_BLUE'',
        MkWire (Tok ''SW_1'') (pinref 1 2) ''WIRE_ORANGE'',
        MkWire (pinref 1 3) (Tok ''LED_1'') ''WIRE_YELLOW''],
     logic = LFun half_adder_logic \<rparr>"

definition full_adder :: recipe where
  "full_adder = \<lparr>
     chips = [mk_chip ''u1'' ''7486'' 15, mk_chip ''u2'' ''7408'' 28, mk_chip ''u3'' ''7432'' 41],
     inputs = [''A'', ''B'', ''Cin''], outputs = [''Sum'', ''Cout''],
     wires = powerWires 0 (PinCount 14) @ powerWires 1 (PinCount 14) @
             powerWires 2 (PinCount 14) @
       [MkWire (Tok ''SW_0'') (pinref 0 1) ''WIRE_BLUE'',
        MkWire (Tok ''SW_1'') (pinref 0 2) ''WIRE_ORANGE'',
        MkWire (pinref 0 3) (pinref 0 4) ''WIRE_PURPLE'',
        MkWire (Tok ''SW_2'') (pinref 0 5) ''WIRE_YELLOW'',
        MkWire (pinref 0 6) (Tok ''LED_0'') ''WIRE_GREEN'',
        MkWire (Tok ''SW_0'') (pinref 1 1) ''WIRE_BLUE'',
        MkWire (Tok ''SW_1'') (pinref 1 2) ''WIRE_ORANGE'',
        MkWire (pinref 0 3) (pinref 1 4) ''WIRE_PURPLE'',
        MkWire (Tok ''SW_2'') (pinref 1 5) ''WIRE_YELLOW'',
        MkWire (pinref 1 3) (pinref 2 1) ''WIRE_PURPLE'',
        MkWire (pinref 1 6) (pinref 2 2) ''WIRE_PURPLE'',
        MkWire (pinref 2 3) (Tok ''LED_1'') ''WIRE_RED''],
     logic = LFun full_adder_logic \<rparr>"

definition half_subtractor :: recipe where
  "half_subtractor = \<lparr>
     chips = [mk_chip ''u1'' ''7486'' 15, mk_chip ''u2'' ''7404'' 28, mk_chip ''u3'' ''7408'' 41],
     inputs = [''A'', ''B''], outputs = [''Diff'', ''Borr''],
     wires = powerWires 0 (PinCount 14) @ powerWires 1 (PinCount 14) @
             powerWires 2 (PinCount 14) @
       [MkWire (Tok ''SW_0'') (pinref 0 1) ''WIRE_BLUE'',
        MkWire (Tok ''SW_1'') (pinref 0 2) ''WIRE_ORANGE'',
        MkWire (pinref 0 3) (Tok ''LED_0'') ''WIRE_GREEN'',
        MkWire (Tok ''SW_0'') (pinref 1 1) ''WIRE_BLUE'',
        MkWire (pinref 1 2) (pinref 2 1) ''WIRE_PURPLE'',
        MkWire (Tok ''SW_1'') (pinref 2 2) ''WIRE_ORANGE'',
        MkWire (pinref 2 3) (Tok ''LED_1'') ''WIRE_RED''],
     logic = LFun half_subtractor_logic \<rparr>"

definition full_subtractor :: recipe where
  "full_subtractor = \<lparr>
     chips = [mk_chip ''u1'' ''7486'' 10, mk_chip ''u2'' ''7408'' 22, mk_chip ''u3'' ''7404'' 34,
              mk_chip ''u4'' ''7432'' 46],
     inputs = [''A'', ''B'', ''Bin''], outputs = [''Diff'', ''Bout''],
     wires = powerWires 0 (PinCount 14) @ powerWires 1 (PinCount 14) @
             powerWires 2 (PinCount 14) @ powerWires 3 (PinCount 14) @
       [MkWire (Tok ''SW_0'') (pinref 0 1) ''WIRE_BLUE'',
        MkWire (Tok ''SW_1'') (pinref 0 2) ''WIRE_ORANGE'',
        MkWire (pinref 0 3) (pinref 0 4) ''WIRE_PURPLE'',
        MkWire (Tok ''SW_2'') (pinref 0 5) ''WIRE_GREEN'',
        MkWire (pinref 0 6) (Tok ''LED_0'') ''WIRE_GREEN'',
        MkWire (pinref 2 2) (pinref 1 1) ''WIRE_YELLOW'',
        MkWire (pinref 1 3) (pinref 3 1) ''WIRE_YELLOW'',
        MkWire (pinref 3 3) (Tok ''LED_1'') ''WIRE_RED''],
     logic = LFun full_subtractor_logic \<rparr>"

definition multiplier_2bit :: recipe where
  "multiplier_2bit = \<lparr>
     chips = [mk_chip ''u1'' ''7408'' 15, mk_chip ''u2'' ''7486'' 28, mk_chip ''u3'' ''7408'' 41],
     inputs = [''A0'', ''A1'', ''B0'', ''B1''], outputs = [''P0'', ''P1'', ''P2'', ''P3''],
     wires = powerWires 0 (PinCount 14) @ powerWires 1 (PinCount 14) @
             powerWires 2 (PinCount 14) @
       [MkWire (Tok ''SW_0'') (pinref 0 1) ''WIRE_BLUE'',
        MkWire (Tok ''SW_2'') (pinref 0 2) ''WIRE_ORANGE'',
        MkWire (pinref 0 3) (Tok ''LED_0'') ''WIRE_GREEN'',
        MkWire (Tok ''SW_1'') (pinref 0 4) ''WIRE_PURPLE'',
        MkWire (Tok ''SW_2'') (pinref 0 5) ''WIRE_ORANGE'',
        MkWire (Tok ''SW_0'') (pinref 0 9) ''WIRE_BLUE'',
        MkWire (Tok ''SW_3'') (pinref 0 10) ''WIRE_YELLOW'',
        MkWire (pinref 0 6) (pinref 1 1) ''WIRE_PURPLE'',
        MkWire (pinref 0 8) (pinref 1 2) ''WIRE_PURPLE'',
        MkWire (pinref 1 3) (Tok ''LED_1'') ''WIRE_GREEN'',
        MkWire (pinref 2 6) (Tok ''LED_3'') ''WIRE_RED''],
     logic = LFun multiplier_2bit_logic \<rparr>"

definition binary_gray :: recipe where
  "binary_gray = \<lparr>
     chips = [mk_chip ''u1'' ''7486'' 25],
     inputs = [''B3'', ''B2'', ''B1'', ''B0''], outputs = [''G3'', ''G2'', ''G1'', ''G0''],
     wires = powerWires 0 (PinCount 14) @
       [MkWire (Tok ''SW_0'') (Tok ''LED_0'') ''WIRE_BLUE'',
        MkWire (Tok ''SW_0'') (pinref 0 1) ''WIRE_BLUE'',
        MkWire (Tok ''SW_1'') (pinref 0 2) ''WIRE_ORANGE'',
        MkWire (pinref 0 3) (Tok ''LED_1'') ''WIRE_GREEN'',
        MkWire (Tok ''SW_1'') (pinref 0 4) ''WIRE_ORANGE'',
        MkWire (Tok ''SW_2'') (pinref 0 5) ''WIRE_YELLOW'',
        MkWire (pinref 0 6) (Tok ''LED_2'') ''WIRE_GREEN'',
        MkWire (Tok ''SW_2'') (pinref 0 9) ''WIRE_YELLOW'',
        MkWire (Tok ''SW_3'') (pinref 0 10) ''WIRE_PURPLE'',
        MkWire (pinref 0 8) (Tok ''LED_3'') ''WIRE_GREEN''],
     logic = LFun binary_gray_logic \<rparr>"

definition mux_74153 :: recipe where
  "mux_74153 = \<lparr>
     chips = [mk_chip ''u1'' ''74153'' 25],
     inputs = [''A'', ''B'', ''1C0'', ''1C1'', ''1C2'', ''1C3''], outputs = [''1Y''],
     wires = powerWires 0 (PinCount 16) @
       [MkWire (Tok ''GND'') (pinref 0 1) ''WIRE_BLACK'',
        MkWire (Tok ''SW_0'') (pinref 0 14) ''WIRE_BLUE'',
        MkWire (Tok ''SW_1'') (pinref 0 2) ''WIRE_ORANGE'',
        MkWire (Tok ''SW_2'') (pinref 0 6) ''WIRE_GREEN'',
        MkWire (Tok ''SW_3'') (pinref 0 5) ''WIRE_GREEN'',
        MkWire (Tok ''SW_4'') (pinref 0 4) ''WIRE_GREEN'',
        MkWire (Tok ''SW_5'') (pinref 0 3) ''WIRE_GREEN'',
        MkWire (pinref 0 7) (Tok ''LED_0'') ''WIRE_RED''],
     logic = LFun mux_74153_logic \<rparr>"

definition decoder_74139 :: recipe where
  "decoder_74139 = \<lparr>
     chips = [mk_chip ''u1'' ''74139'' 25],
     inputs = [''A'', ''B'', ''En''], outputs = [''Y0'', ''Y1'', ''Y2'', ''Y3''],
     wires = powerWires 0 (PinCount 16) @
       [MkWire (Tok ''SW_2'') (pinref 0 1) ''WIRE_BLACK'',
        MkWire (Tok ''SW_0'') (pinref 0 2) ''WIRE_BLUE'',
        MkWire (Tok ''SW_1'') (pinref 0 3) ''WIRE_ORANGE'',
        MkWire (pinref 0 4) (Tok ''LED_0'') ''WIRE_RED'',
        MkWire (pinref 0 5) (Tok ''LED_1'') ''WIRE_RED'',
        MkWire (pinref 0 6) (Tok ''LED_2'') ''WIRE_RED'',
        MkWire (pinref 0 7) (Tok ''LED_3'') ''WIRE_RED''],
     logic = LFun decoder_74139_logic \<rparr>"

definition comparator_7485 :: recipe where
  "comparator_7485 = \<lparr>
     chips = [mk_chip ''u1'' ''7485'' 25],
     inputs = [''A1'', ''A0'', ''B1'', ''B0''], outputs = [''A>B'', ''A=B'', ''A<B''],
     wires = powerWires 0 (PinCount 16) @
       [MkWire (Tok ''GND'') (pinref 0 15) ''WIRE_BLACK'',
        MkWire (Tok ''GND'') (pinref 0 13) ''WIRE_BLACK'',
        MkWire (Tok ''GND'') (pinref 0 1) ''WIRE_BLACK'',
        MkWire (Tok ''GND'') (pinref 0 14) ''WIRE_BLACK'',
        MkWire (Tok ''VCC'') (pinref 0 3) ''WIRE_RED'',
        MkWire (Tok ''GND'') (pinref 0 2) ''WIRE_BLACK'',
        MkWire (Tok ''GND'') (pinref 0 4) ''WIRE_BLACK'',
        MkWire (Tok ''SW_0'') (pinref 0 12) ''WIRE_BLUE'',
        MkWire (Tok ''SW_1'') (pinref 0 10) ''WIRE_BLUE'',
        MkWire (Tok ''SW_2'') (pinref 0 11) ''WIRE_ORANGE'',
        MkWire (Tok ''SW_3'') (pinref 0 9) ''WIRE_ORANGE'',
        MkWire (pinref 0 5) (Tok ''LED_0'') ''WIRE_GREEN'',
        MkWire (pinref 0 6) (Tok ''LED_1'') ''WIRE_YELLOW'',
        MkWire (pinref 0 7) (Tok ''LED_2'') ''WIRE_RED''],
     logic = LFun comparator_7485_logic \<rparr>"

definition d_ff_7474 :: recipe where
  "d_ff_7474 = \<lparr>
     chips = [mk_chip ''u1'' ''7474'' 25],
     inputs = [''D'', ''CLK'', ''PRE'', ''CLR''], outputs = [''Q'', ''/Q''],
     wires = powerWires 0 (PinCount 14) @
       [MkWire (Tok ''SW_2'') (pinref 0 4) ''WIRE_RED'',
        MkWire (Tok ''SW_3'') (pinref 0 1) ''WIRE_RED'',
        MkWire (Tok ''SW_0'') (pinref 0 2) ''WIRE_BLUE'',
        MkWire (Tok ''SW_1'') (pinref 0 3) ''WIRE_YELLOW'',
        MkWire (pinref 0 5) (Tok ''LED_0'') ''WIRE_GREEN'',
        MkWire (pinref 0 6) (Tok ''LED_1'') ''WIRE_ORANGE''],
     logic = LFun d_ff_7474_logic \<rparr>"

definition jk_ff_7476 :: recipe where
  "jk_ff_7476 = \<lparr>
     chips = [mk_chip ''u1'' ''7476'' 25],
     inputs = [''J'', ''K'', ''CLK''], outputs = [''Q'', ''/Q''],
     wires = powerWires 0 (PinName ''7476'') @
       [MkWire (Tok ''SW_0'') (pinref 0 4) ''WIRE_BLUE'',
        MkWire (Tok ''SW_1'') (pinref 0 16) ''WIRE_ORANGE'',
        MkWire (Tok ''SW_2'') (pinref 0 1) ''WIRE_YELLOW'',
        MkWire (Tok ''VCC'') (pinref 0 2) ''WIRE_RED'',
        MkWire (Tok ''VCC'') (pinref 0 3) ''WIRE_RED'',
        MkWire (pinref 0 15) (Tok ''LED_0'') ''WIRE_GREEN'',
        MkWire (pinref 0 14) (Tok ''LED_1'') ''WIRE_RED''],
     logic = LFun jk_ff_7476_logic \<rparr>"

definition counter_mod4 :: recipe where
  "counter_mod4 = \<lparr>
     chips = [mk_chip ''u1'' ''7476'' 25],
     inputs = [''CLK''], outputs = [''Q0'', ''Q1''],
     wires = powerWires 0 (PinName ''7476'') @
       [MkWire (Tok ''VCC'') (pinref 0 4) ''WIRE_RED'',
        MkWire (Tok ''VCC'') (pinref 0 16) ''WIRE_RED'',
        MkWire (Tok ''VCC'') (pinref 0 9) ''WIRE_RED'',
        MkWire (Tok ''VCC'') (pinref 0 12) ''WIRE_RED'',
        MkWire (Tok ''VCC'') (pinref 0 2) ''WIRE_RED'',
        MkWire (Tok ''VCC'') (pinref 0 3) ''WIRE_RED'',
        MkWire (Tok ''VCC'') (pinref 0 7) ''WIRE_RED'',
        MkWire (Tok ''VCC'') (pinref 0 8) ''WIRE_RED'',
        MkWire (Tok ''SW_0'') (pinref 0 1) ''WIRE_YELLOW'',
        MkWire (pinref 0 15) (pinref 0 6) ''WIRE_PURPLE'',
        MkWire (pinref 0 15) (Tok ''LED_0'') ''WIRE_GREEN'',
        MkWire (pinref 0 11) (Tok ''LED_1'') ''WIRE_GREEN''],
     logic = LFun counter_mod4_logic \<rparr>"

text \<open>The object literal \<^verbatim>\<open>RECIPES\<close>, in the order of the source.\<close>

definition RECIPES :: "(string \<times> recipe) list" where
  "RECIPES =
     [(''basic_gates'', basic_gates),
      (''not_using_nand'', not_using_nand),
      (''and_using_nand'', and_using_nand),
      (''or_using_nand'', or_using_nand),
      (''not_using_nor'', not_using_nor),
      (''or_using_nor'', or_using_nor),
      (''and_using_nor'', and_using_nor),
      (''half_adder'', half_adder),
      (''full_adder'', full_adder),
      (''half_subtractor'', half_subtractor),
      (''full_subtractor'', full_subtractor),
      (''multiplier_2bit'', multiplier_2bit),
      (''binary_gray'', binary_gray),
      (''mux_74153'', mux_74153),
      (''decoder_74139'', decoder_74139),
      (''comparator_7485'', comparator_7485),
      (''d_ff_7474'', d_ff_7474),
      (''jk_ff_7476'', jk_ff_7476),
      (''counter_mod4'', counter_mod4)]"


section \<open>The logic evaluator\<close>

text \<open>
  The body of the \<^verbatim>\<open>outputs\<close> memo of the component:
  \<^verbatim>\<open>try { return activeRecipe.logic ? activeRecipe.logic(inputs) : [0,0,0,0]; }
   catch { return [0,0,0,0]; }\<close>
  Calling a truthy value that is not a function throws a \<^verbatim>\<open>TypeError\<close>. The argument
  \<open>i\<close> is the address of the \<^verbatim>\<open>inputs\<close> array.
\<close>

definition call_logic :: "logic_field \<Rightarrow> logic_fn" where
  "call_logic l i st = (case l of LFun f \<Rightarrow> f i st | LValue v \<Rightarrow> (Throw TypeError, st))"

definition logic_truthy :: "logic_field \<Rightarrow> bool" where
  "logic_truthy l = (case l of LFun f \<Rightarrow> True | LValue v \<Rightarrow> truthy v)"

definition evaluate :: "recipe \<Rightarrow> addr \<Rightarrow> store \<Rightarrow> addr completion \<times> store" where
  "evaluate activeRecipe i =
     try_catch
       (\<lambda>st. if logic_truthy (logic activeRecipe) then call_logic (logic activeRecipe) i st
             else return_array [JNum 0, JNum 0, JNum 0, JNum 0] st)
       (\<lambda>st. return_array [JNum 0, JNum 0, JNum 0, JNum 0] st)"


section \<open>Strings\<close>

text \<open>\<^verbatim>\<open>str.includes(sub)\<close>.\<close>

fun str_includes :: "string \<Rightarrow> string \<Rightarrow> bool" where
  "str_includes [] sub = (sub = [])"
| "str_includes (x # xs) sub = (prefix sub (x # xs) \<or> str_includes xs sub)"

text \<open>\<^verbatim>\<open>str.split(c)\<close> for a separator of one character.\<close>

fun str_split :: "string \<Rightarrow> char \<Rightarrow> string list" where
  "str_split [] c = [[]]"
| "str_split (x # xs) c =
     (if x = c then [] # str_split xs c
      else (case str_split xs c of y # ys \<Rightarrow> (x # y) # ys | [] \<Rightarrow> [[x]]))"

text \<open>\<^verbatim>\<open>xs[k]\<close> on an array of strings: \<open>None\<close> is \<^verbatim>\<open>undefined\<close>.\<close>

definition nth_opt :: "'a list \<Rightarrow> nat \<Rightarrow> 'a option" where
  "nth_opt xs k = (if k < length xs then Some (xs ! k) else None)"

text \<open>
  \<^verbatim>\<open>parseInt(s)\<close> without a radix: leading white space is skipped, then an optional sign,
  then an optional \<^verbatim>\<open>0x\<close> prefix that selects radix 16, then the longest run of digits of the
  radix; no digit at all gives \<^verbatim>\<open>NaN\<close> (\<open>None\<close>), and so does \<^verbatim>\<open>undefined\<close>, whose string
  form starts with the letter u.
\<close>

text \<open>The white space of ASCII; the further white space of Unicode is not modelled.\<close>

definition is_space :: "char \<Rightarrow> bool" where
  "is_space ch = (of_char ch \<in> {9, 10, 11, 12, 13, 32 :: nat})"

definition digit_of :: "char \<Rightarrow> nat option" where
  "digit_of ch =
     (let n = of_char ch :: nat
      in if 48 \<le> n \<and> n \<le> 57 then Some (n - 48)
         else if 97 \<le> n \<and> n \<le> 122 then Some (n - 87)
         else if 65 \<le> n \<and> n \<le> 90 then Some (n - 55)
         else None)"

definition is_digit :: "nat \<Rightarrow> char \<Rightarrow> bool" where
  "is_digit radix ch = (case digit_of ch of Some d \<Rightarrow> d < radix | None \<Rightarrow> False)"

definition digits_value :: "nat \<Rightarrow> string \<Rightarrow> nat" where
  "digits_value radix ds = foldl (\<lambda>acc ch. acc * radix + (case digit_of ch of Some d \<Rightarrow> d | None \<Rightarrow> 0)) 0 ds"

definition parseInt :: "string option \<Rightarrow> int option" where
  "parseInt arg =
     (case arg of
        None \<Rightarrow> None
      | Some str \<Rightarrow>
          let s1 = dropWhile is_space str;
              sign = (if prefix ''-'' s1 then - 1 else 1 :: int);
              s2 = (if prefix ''-'' s1 \<or> prefix ''+'' s1 then drop 1 s1 else s1);
              radix = (if prefix ''0x'' s2 \<or> prefix ''0X'' s2 then 16 else 10 :: nat);
              s3 = (if prefix ''0x'' s2 \<or> prefix ''0X'' s2 then drop 2 s2 else s2);
              z = takeWhile (is_digit radix) s3
          in if z = [] then None else Some (sign * int (digits_value radix z)))"

text \<open>\<^verbatim>\<open>n || d\<close> on a number: \<^verbatim>\<open>NaN\<close>, \<^verbatim>\<open>undefined\<close> and 0 are falsy.\<close>

definition or_default :: "int option \<Rightarrow> int \<Rightarrow> int" where
  "or_default n d = (case n of None \<Rightarrow> d | Some m \<Rightarrow> if m = 0 then d else m)"


section \<open>Board coordinates\<close>

definition CELL :: rat where "CELL = 15"
definition OFF_X :: rat where "OFF_X = 140"
definition OFF_Y :: rat where "OFF_Y = 30"

definition COLORS :: "(string \<times> string) list" where
  "COLORS =
     [(''BG'', ''#121212''), (''BOARD_BODY'', ''#e5e7eb''), (''BOARD_GROOVE'', ''#d1d5db''),
      (''PIN_HOLE'', ''#9ca3af''), (''VCC_RAIL'', ''#f87171''), (''GND_RAIL'', ''#60a5fa''),
      (''IC_BODY'', ''#1f2937''), (''IC_TEXT'', ''#f3f4f6''), (''WIRE_RED'', ''#ef4444''),
      (''WIRE_BLACK'', ''#111827''), (''WIRE_BLUE'', ''#3b82f6''),
      (''WIRE_ORANGE'', ''#f97316''), (''WIRE_GREEN'', ''#22c55e''),
      (''WIRE_PURPLE'', ''#a855f7''), (''WIRE_YELLOW'', ''#eab308''),
      (''LED_ON'', ''#ef4444''), (''LED_OFF'', ''#450a0a'')]"

text \<open>A coordinate object \<^verbatim>\<open>{x, y}\<close>; the chip positions and pin numbers are integers, so
  every coordinate is a multiple of one half.\<close>

record point =
  px :: rat
  py :: rat

text \<open>\<^verbatim>\<open>chips[n]\<close>: \<^verbatim>\<open>undefined\<close> (\<open>None\<close>) unless \<open>n\<close> is an index of the array.\<close>

definition chip_at :: "chip list \<Rightarrow> int \<Rightarrow> chip option" where
  "chip_at chs n = (if 0 \<le> n \<and> n < int (length chs) then Some (chs ! nat n) else None)"

text \<open>
  The fields \<^verbatim>\<open>val.c\<close> and \<^verbatim>\<open>val.p\<close>; a string has neither. Reading a field of
  \<^verbatim>\<open>undefined\<close> or \<^verbatim>\<open>null\<close> throws, which \<^verbatim>\<open>getCoords\<close> handles before it uses these.
\<close>

fun field_c :: "endpoint \<Rightarrow> int option" where
  "field_c (PinObj c p) = c"
| "field_c (Tok str) = None"
| "field_c NoEnd = None"

fun field_p :: "endpoint \<Rightarrow> int option" where
  "field_p (PinObj c p) = p"
| "field_p (Tok str) = None"
| "field_p NoEnd = None"

text \<open>The constant \<^verbatim>\<open>maxBottom\<close> of \<^verbatim>\<open>getCoords\<close>: the pins on one side of the package.\<close>

definition maxBottom :: "string \<Rightarrow> int" where
  "maxBottom ty =
     (if ty = ''7476'' \<or> ty = ''74153'' \<or> ty = ''74139'' \<or> ty = ''7485'' then 8 else 7)"

text \<open>
  \<^verbatim>\<open>getCoords(type, val, chips)\<close>. The whole body is inside \<^verbatim>\<open>try { ... } catch { return def; }\<close>:
  reading \<^verbatim>\<open>chip.x\<close> of a chip that does not exist, \<^verbatim>\<open>val.c\<close> of a missing \<^verbatim>\<open>val\<close>, or
  calling \<^verbatim>\<open>val.split\<close> on an object throws, and the result is then \<^verbatim>\<open>def\<close>.
  \<^verbatim>\<open>val\<close> is missing when the caller passes no argument (\<open>None\<close>) and when the wire has
  no such end (\<open>NoEnd\<close>). An argument
  that the caller leaves out is \<open>None\<close> for \<^verbatim>\<open>val\<close> and the empty list for \<^verbatim>\<open>chips\<close>, which
  only the branch \<^verbatim>\<open>'PIN'\<close> reads.
\<close>

definition def :: point where
  "def = \<lparr>px = 0, py = 0\<rparr>"

definition getCoords :: "string \<Rightarrow> endpoint option \<Rightarrow> chip list \<Rightarrow> point" where
  "getCoords type val chs =
     (if type = ''RAIL_VCC'' then \<lparr>px = OFF_X + 10, py = OFF_Y + CELL * (3 / 2)\<rparr>
      else if type = ''RAIL_GND'' then \<lparr>px = OFF_X + 10, py = OFF_Y + CELL * (35 / 2)\<rparr>
      else if type = ''SW'' then
        (case val of
           Some (Tok str) \<Rightarrow>
             \<lparr>px = OFF_X
                    + (20 + of_int (or_default (parseInt (nth_opt (str_split str CHR ''_'') 1)) 0) * 2)
                      * CELL,
              py = OFF_Y + 16 * CELL\<rparr>
         | _ \<Rightarrow> def)
      else if type = ''LED'' then
        (case val of
           Some (Tok str) \<Rightarrow>
             \<lparr>px = OFF_X + 55 * CELL,
              py = OFF_Y
                    + (4 + of_int (or_default (parseInt (nth_opt (str_split str CHR ''_'') 1)) 0) * 3)
                      * CELL\<rparr>
         | _ \<Rightarrow> def)
      else if type = ''PIN'' then
        (case val of
           None \<Rightarrow> def
         | Some NoEnd \<Rightarrow> def
         | Some v \<Rightarrow>
             (case chip_at chs (or_default (field_c v) 0) of
                None \<Rightarrow> def
              | Some chip \<Rightarrow>
                  let pin = or_default (field_p v) 1;
                      chipX = OFF_X + of_int (chip_x chip) * CELL;
                      chipY = OFF_Y + 6 * CELL;
                      maxTop = maxBottom (chip_type chip) * 2
                  in if pin \<le> maxBottom (chip_type chip)
                     then \<lparr>px = chipX + of_int (pin - 1) * CELL + 5, py = chipY + (9 / 2) * CELL\<rparr>
                     else \<lparr>px = chipX + of_int (maxTop - pin) * CELL + 5,
                           py = chipY - (1 / 2) * CELL\<rparr>))
      else def)"


section \<open>The wire router\<close>

text \<open>
  \<^verbatim>\<open>Wire\<close> receives two objects \<^verbatim>\<open>{x, y}\<close> and tests them with \<^verbatim>\<open>!\<close>, so what matters is
  every value a component can have: none at all (\<^verbatim>\<open>undefined\<close>), \<^verbatim>\<open>NaN\<close> (what
  \<^verbatim>\<open>getCoords\<close> computes in the source from a chip without a numeric \<^verbatim>\<open>x\<close>), or a finite
  number. Infinite components are not modelled.
\<close>

datatype coord = CUndef | CNaN | CNum rat

record xy =
  x_of :: coord
  y_of :: coord

text \<open>\<^verbatim>\<open>!v\<close> on a component: \<^verbatim>\<open>undefined\<close>, \<^verbatim>\<open>NaN\<close> and 0 are falsy.\<close>

fun coord_falsy :: "coord \<Rightarrow> bool" where
  "coord_falsy CUndef = True"
| "coord_falsy CNaN = True"
| "coord_falsy (CNum r) = (r = 0)"

text \<open>Arithmetic on components: \<^verbatim>\<open>undefined\<close> converts to \<^verbatim>\<open>NaN\<close>, and \<^verbatim>\<open>NaN\<close> spreads.\<close>

fun coord_number :: "coord \<Rightarrow> rat option" where
  "coord_number CUndef = None"
| "coord_number CNaN = None"
| "coord_number (CNum r) = Some r"

definition coord_op :: "(rat \<Rightarrow> rat \<Rightarrow> rat) \<Rightarrow> coord \<Rightarrow> coord \<Rightarrow> coord" where
  "coord_op f a b =
     (case (coord_number a, coord_number b) of (Some u, Some v) \<Rightarrow> CNum (f u v) | _ \<Rightarrow> CNaN)"

text \<open>\<^verbatim>\<open>a % b\<close>: the remainder has the sign of the dividend.\<close>

definition js_rem :: "rat \<Rightarrow> rat \<Rightarrow> rat" where
  "js_rem a b = a - b * of_int (if 0 \<le> a / b then \<lfloor>a / b\<rfloor> else \<lceil>a / b\<rceil>)"

text \<open>
  What \<^verbatim>\<open>Wire\<close> draws: the path of the attribute \<^verbatim>\<open>d\<close>, as its commands \<^verbatim>\<open>M x y\<close> and
  \<^verbatim>\<open>L x y\<close>, the colour, and the two end dots. \<open>None\<close> is the \<^verbatim>\<open>null\<close> that draws nothing.
\<close>

datatype path_cmd = MoveTo coord coord | LineTo coord coord

record wire_svg =
  path_d :: "path_cmd list"
  stroke :: string
  dots :: "xy list"

definition Wire :: "xy option \<Rightarrow> xy option \<Rightarrow> string \<Rightarrow> wire_svg option" where
  "Wire p1 p2 col =
     (case (p1, p2) of
        (Some a, Some b) \<Rightarrow>
          if coord_falsy (x_of a) \<or> coord_falsy (x_of b) then None
          else
            let midY = coord_op (\<lambda>u v. u / v) (coord_op (\<lambda>u v. u + v) (y_of a) (y_of b)) (CNum 2);
                jitter = coord_op js_rem (x_of a) (CNum 5)
            in Some \<lparr>path_d = [MoveTo (x_of a) (y_of a),
                               LineTo (x_of a) (coord_op (\<lambda>u v. u + v) midY jitter),
                               LineTo (x_of b) (coord_op (\<lambda>u v. u + v) midY jitter),
                               LineTo (x_of b) (y_of b)],
                     stroke = col, dots = [a, b]\<rparr>
      | _ \<Rightarrow> None)"

text \<open>
  The object that \<^verbatim>\<open>getCoords\<close> hands to \<^verbatim>\<open>Wire\<close>. The chips of this model stand at integer
  positions, so both components are finite numbers.
\<close>

definition as_xy :: "point \<Rightarrow> xy" where
  "as_xy pt = \<lparr>x_of = CNum (px pt), y_of = CNum (py pt)\<rparr>"

text \<open>The two ends of a wire, as the component resolves them before it calls \<^verbatim>\<open>Wire\<close>.\<close>

definition is_string_including :: "endpoint \<Rightarrow> string \<Rightarrow> bool" where
  "is_string_including v sub = (case v of Tok str \<Rightarrow> str_includes str sub | _ \<Rightarrow> False)"

definition resolve_s :: "chip list \<Rightarrow> endpoint \<Rightarrow> point" where
  "resolve_s chs v =
     (if v = Tok ''VCC'' then getCoords ''RAIL_VCC'' None []
      else if v = Tok ''GND'' then getCoords ''RAIL_GND'' None []
      else if is_string_including v ''SW'' then getCoords ''SW'' (Some v) []
      else getCoords ''PIN'' (Some v) chs)"

definition resolve_e :: "chip list \<Rightarrow> endpoint \<Rightarrow> point" where
  "resolve_e chs v =
     (if is_string_including v ''LED'' then getCoords ''LED'' (Some v) []
      else getCoords ''PIN'' (Some v) chs)"

text \<open>
  \<^verbatim>\<open>COLORS[w.color] || COLORS.WIRE_GREEN\<close>. A name that is not a key of \<^verbatim>\<open>COLORS\<close> reads as
  \<^verbatim>\<open>undefined\<close>, which is falsy like the empty string and is the empty string here. The
  names that every object inherits, such as \<^verbatim>\<open>constructor\<close>, are not modelled.
\<close>

definition color_of :: "string \<Rightarrow> string" where
  "color_of name = (case map_of COLORS name of Some col \<Rightarrow> col | None \<Rightarrow> [])"

definition wire_color :: "string \<Rightarrow> string" where
  "wire_color name = (if color_of name = [] then color_of ''WIRE_GREEN'' else color_of name)"

definition render_wire :: "chip list \<Rightarrow> wire \<Rightarrow> wire_svg option" where
  "render_wire chs w =
     Wire (Some (as_xy (resolve_s chs (wire_s w)))) (Some (as_xy (resolve_e chs (wire_e w))))
          (wire_color (color w))"

text \<open>\<^verbatim>\<open>activeRecipe.wires.map(...)\<close>: one entry for each wire, \<open>None\<close> where nothing is drawn.\<close>

definition render_wires :: "recipe \<Rightarrow> wire_svg option list" where
  "render_wires activeRecipe = map (render_wire (chips activeRecipe)) (wires activeRecipe)"


section \<open>Notions used to state the properties\<close>

text \<open>
  The result of a logic function on an array \<open>xs\<close>, taken alone: the function is called on
  a store that holds nothing but \<open>xs\<close>, and the array it returns is read back.
\<close>

definition run_logic :: "logic_fn \<Rightarrow> jsarray \<Rightarrow> jsarray completion" where
  "run_logic f xs =
     (case f 0 [xs] of
        (Return a, st') \<Rightarrow> Return (array_at st' a)
      | (Throw err, st') \<Rightarrow> Throw err)"

text \<open>
  A logic function that behaves like a mathematical function of the contents of its
  argument. In every store it either returns or throws, and which of the two, with what
  contents or what error, is what \<open>run_logic\<close> gives on the contents of the argument. When
  it returns, every array that existed before the call is still there unchanged (the old
  store is a prefix of the new one) and the result is an array allocated by the call;
  when it throws, the store is as it was.
\<close>

definition input_determined :: "logic_fn \<Rightarrow> bool" where
  "input_determined f \<longleftrightarrow>
     (\<forall>i st.
        (\<exists>a st'. f i st = (Return a, st') \<and> prefix st st' \<and> length st \<le> a \<and> a < length st'
                \<and> run_logic f (array_at st i) = Return (array_at st' a))
      \<or> (\<exists>err. f i st = (Throw err, st) \<and> run_logic f (array_at st i) = Throw err))"

text \<open>
  The entries on which no operator throws: everything but a BigInt and a Symbol. An array
  is plain when each of its entries is; a hole reads as \<^verbatim>\<open>undefined\<close>.
\<close>

fun plain :: "jsval \<Rightarrow> bool" where
  "plain (JBigInt n) = False"
| "plain (JSymbol s) = False"
| "plain v = True"




text \<open>The contents of the default \<^verbatim>\<open>[0,0,0,0]\<close>.\<close>

definition zeros4 :: jsarray where
  "zeros4 = map Some [JNum 0, JNum 0, JNum 0, JNum 0]"

text \<open>The coordinate of pin \<open>p\<close> of the chip with index \<open>c\<close>, for the wire end \<^verbatim>\<open>{c: c, p: p}\<close>.\<close>

definition pin_coords :: "chip list \<Rightarrow> int \<Rightarrow> int \<Rightarrow> point" where
  "pin_coords chs c p = getCoords ''PIN'' (Some (pinref c p)) chs"

text \<open>
  The line segments of a path, and what it means for one to be vertical or horizontal:
  its two ends are points with numbers for components, and they share the \<open>x\<close>, or the
  \<open>y\<close>.
\<close>

fun cmd_point :: "path_cmd \<Rightarrow> coord \<times> coord" where
  "cmd_point (MoveTo u v) = (u, v)"
| "cmd_point (LineTo u v) = (u, v)"

fun segments :: "path_cmd list \<Rightarrow> ((coord \<times> coord) \<times> (coord \<times> coord)) list" where
  "segments (c1 # c2 # cs) = (cmd_point c1, cmd_point c2) # segments (c2 # cs)"
| "segments cs = []"

fun vertical :: "(coord \<times> coord) \<times> (coord \<times> coord) \<Rightarrow> bool" where
  "vertical ((CNum x1, CNum y1), (CNum x2, CNum y2)) = (x1 = x2)"
| "vertical sg = False"

fun horizontal :: "(coord \<times> coord) \<times> (coord \<times> coord) \<Rightarrow> bool" where
  "horizontal ((CNum x1, CNum y1), (CNum x2, CNum y2)) = (y1 = y2)"
| "horizontal sg = False"

text \<open>The wires that are drawn: React renders nothing for a \<^verbatim>\<open>null\<close> child.\<close>

definition drawn_wires :: "chip list \<Rightarrow> wire list \<Rightarrow> wire_svg list" where
  "drawn_wires chs ws =
     concat (map (\<lambda>w. case render_wire chs w of None \<Rightarrow> [] | Some g \<Rightarrow> [g]) ws)"


section \<open>Basic facts about the store and the evaluator\<close>

lemmas js_ops = js_and_def js_or_def js_xor_def js_not_def js_mul_def js_add_def js_shr_def
  js_gt_def js_lt_def js_seq_def js_land_def ToInt32_def numeric_op_def number_op_def
  compare_op_def

lemma array_at_new [simp]: "array_at (st @ [xs]) (length st) = xs"
  by (simp add: array_at_def)

lemma array_at_Cons_0 [simp]: "array_at (xs # st) 0 = xs"
  by (simp add: array_at_def)

lemma array_at_Cons_Suc [simp]: "array_at (xs # st) (Suc a) = array_at st a"
  by (simp add: array_at_def)

lemma array_at_old [simp]: "a < length st \<Longrightarrow> array_at (st @ rest) a = array_at st a"
  by (simp add: array_at_def nth_append)

lemma array_at_prefix: "prefix st st' \<Longrightarrow> a < length st \<Longrightarrow> array_at st' a = array_at st a"
  by (auto simp: prefix_def)

lemma return_array_eq: "return_array vs st = (Return (length st), st @ [map Some vs])"
  by (simp add: return_array_def new_array_def)

lemmas logic_simps = return_array_eq get_def Let_def

text \<open>
  Every logic function of the library reads its argument, computes, and then allocates its
  result; it writes to nothing that existed before the call. \<^verbatim>\<open>decoder_74139\<close> is the one
  function that assigns to an array, and the array is the one it has just allocated.
\<close>

lemma input_determined_computed:
  assumes "\<And>i st. f i st = return_computed (g (array_at st i)) st"
  shows "input_determined f"
  unfolding input_determined_def
proof (intro allI)
  fix i st
  show "(\<exists>a st'. f i st = (Return a, st') \<and> prefix st st' \<and> length st \<le> a \<and> a < length st'
                \<and> run_logic f (array_at st i) = Return (array_at st' a))
      \<or> (\<exists>err. f i st = (Throw err, st) \<and> run_logic f (array_at st i) = Throw err)"
  proof (cases "g (array_at st i)")
    case None
    then have "f i st = (Throw TypeError, st)"
      and "run_logic f (array_at st i) = Throw TypeError"
      by (simp_all add: assms run_logic_def return_computed_def)
    then show ?thesis by blast
  next
    case (Some vs)
    then have "f i st = (Return (length st), st @ [map Some vs])"
      and "run_logic f (array_at st i) = Return (map Some vs)"
      by (simp_all add: assms run_logic_def return_computed_def return_array_eq)
    then show ?thesis by simp
  qed
qed

lemma input_determined_array:
  assumes "\<And>i st. f i st = return_array (g (array_at st i)) st"
  shows "input_determined f"
  by (rule input_determined_computed [where g = "\<lambda>xs. Some (g xs)"])
     (simp add: assms return_computed_def)

lemma basic_gates_logic_det: "input_determined basic_gates_logic"
  by (rule input_determined_computed) (unfold basic_gates_logic_def get_def, rule refl)

lemma not_using_nand_logic_det: "input_determined not_using_nand_logic"
  by (rule input_determined_array) (unfold not_using_nand_logic_def get_def, rule refl)

lemma and_using_nand_logic_det: "input_determined and_using_nand_logic"
  by (rule input_determined_computed) (unfold and_using_nand_logic_def get_def, rule refl)

lemma or_using_nand_logic_det: "input_determined or_using_nand_logic"
  by (rule input_determined_computed) (unfold or_using_nand_logic_def get_def, rule refl)

lemma not_using_nor_logic_det: "input_determined not_using_nor_logic"
  by (rule input_determined_array) (unfold not_using_nor_logic_def get_def, rule refl)

lemma or_using_nor_logic_det: "input_determined or_using_nor_logic"
  by (rule input_determined_computed) (unfold or_using_nor_logic_def get_def, rule refl)

lemma and_using_nor_logic_det: "input_determined and_using_nor_logic"
  by (rule input_determined_computed) (unfold and_using_nor_logic_def get_def, rule refl)

lemma half_adder_logic_det: "input_determined half_adder_logic"
  by (rule input_determined_computed) (unfold half_adder_logic_def get_def, rule refl)

lemma full_adder_logic_det: "input_determined full_adder_logic"
  by (rule input_determined_computed) (unfold full_adder_logic_def get_def, rule refl)

lemma half_subtractor_logic_det: "input_determined half_subtractor_logic"
  by (rule input_determined_computed) (unfold half_subtractor_logic_def get_def, rule refl)

lemma full_subtractor_logic_det: "input_determined full_subtractor_logic"
  by (rule input_determined_computed) (unfold full_subtractor_logic_def get_def, rule refl)

lemma multiplier_2bit_logic_det: "input_determined multiplier_2bit_logic"
  by (rule input_determined_computed) (unfold multiplier_2bit_logic_def get_def, rule refl)

lemma binary_gray_logic_det: "input_determined binary_gray_logic"
  by (rule input_determined_computed) (unfold binary_gray_logic_def get_def, rule refl)

lemma comparator_7485_logic_det: "input_determined comparator_7485_logic"
  by (rule input_determined_computed) (unfold comparator_7485_logic_def get_def, rule refl)

lemma counter_mod4_logic_det: "input_determined counter_mod4_logic"
  by (rule input_determined_array) (unfold counter_mod4_logic_def get_def, rule refl)

lemma d_ff_7474_logic_det: "input_determined d_ff_7474_logic"
  by (rule input_determined_array
        [where g = "\<lambda>xs. if truthy (js_not (elem xs 3)) then [JNum 0, JNum 1]
                          else if truthy (js_not (elem xs 2)) then [JNum 1, JNum 0]
                          else [elem xs 0, js_not (elem xs 0)]"])
     (simp add: d_ff_7474_logic_def get_def)

lemma jk_ff_7476_logic_det: "input_determined jk_ff_7476_logic"
  by (rule input_determined_array
        [where g = "\<lambda>xs. if truthy (js_land (elem xs 0) (js_not (elem xs 1))) then [JNum 1, JNum 0]
                          else if truthy (js_land (js_not (elem xs 0)) (elem xs 1)) then [JNum 0, JNum 1]
                          else if truthy (js_land (elem xs 0) (elem xs 1)) then [JNum 1, JNum 1]
                          else [JNum 0, JNum 1]"])
     (simp add: jk_ff_7476_logic_def get_def Let_def)

lemma mux_74153_logic_det: "input_determined mux_74153_logic"
  by (rule input_determined_computed
        [where g = "\<lambda>xs. do {
            m \<leftarrow> js_mul (elem xs 1) (JNum 2);
            sel \<leftarrow> js_add m (elem xs 0);
            Some (if truthy (js_seq sel (JNum 0)) then [elem xs 2]
                  else if truthy (js_seq sel (JNum 1)) then [elem xs 3]
                  else if truthy (js_seq sel (JNum 2)) then [elem xs 4]
                  else if truthy (js_seq sel (JNum 3)) then [elem xs 5]
                  else [JNum 0]) }"])
     (simp add: mux_74153_logic_def get_def return_computed_def split: Option.bind_split)

lemma decoder_74139_logic_eq:
  "decoder_74139_logic i st =
     (if truthy (elem (array_at st i) 2)
      then (Return (length st), st @ [map Some [JNum 1, JNum 1, JNum 1, JNum 1]])
      else
        (case js_mul (elem (array_at st i) 1) (JNum 2) \<bind> (\<lambda>m. js_add m (elem (array_at st i) 0)) of
           None \<Rightarrow> (Throw TypeError, st)
         | Some sel \<Rightarrow>
             (Return (Suc (length st)),
              st @ [set_index (map Some [JNum 1, JNum 1, JNum 1, JNum 1]) sel (JNum 0),
                    map (map_option js_not)
                      (set_index (map Some [JNum 1, JNum 1, JNum 1, JNum 1]) sel (JNum 0))])))"
  by (simp add: decoder_74139_logic_def logic_simps new_array_def assign_index_def array_map_def
      split: option.splits)

lemma array_at_second [simp]: "array_at (st @ [xs, ys]) (Suc (length st)) = ys"
  by (simp add: array_at_def nth_append)

lemma decoder_74139_logic_det: "input_determined decoder_74139_logic"
  unfolding input_determined_def
proof (intro allI)
  fix i st
  let ?xs = "array_at st i"
  let ?sel = "js_mul (elem ?xs 1) (JNum 2) \<bind> (\<lambda>m. js_add m (elem ?xs 0))"
  have run: "run_logic decoder_74139_logic ?xs =
      (case decoder_74139_logic 0 [?xs] of
         (Return a, st') \<Rightarrow> Return (array_at st' a) | (Throw err, st') \<Rightarrow> Throw err)"
    by (simp add: run_logic_def)
  show "(\<exists>a st'. decoder_74139_logic i st = (Return a, st') \<and> prefix st st' \<and> length st \<le> a
            \<and> a < length st'
            \<and> run_logic decoder_74139_logic ?xs = Return (array_at st' a))
      \<or> (\<exists>err. decoder_74139_logic i st = (Throw err, st)
            \<and> run_logic decoder_74139_logic ?xs = Throw err)"
  proof (cases "truthy (elem ?xs 2)")
    case True
    then show ?thesis
      by (simp add: run decoder_74139_logic_eq)
  next
    case False
    show ?thesis
    proof (cases ?sel)
      case None
      with False show ?thesis
        by (simp add: run decoder_74139_logic_eq)
    next
      case (Some sel)
      with False have "decoder_74139_logic i st =
          (Return (Suc (length st)),
           st @ [set_index (map Some [JNum 1, JNum 1, JNum 1, JNum 1]) sel (JNum 0),
                 map (map_option js_not)
                   (set_index (map Some [JNum 1, JNum 1, JNum 1, JNum 1]) sel (JNum 0))])"
        and "run_logic decoder_74139_logic ?xs =
          Return (map (map_option js_not)
                   (set_index (map Some [JNum 1, JNum 1, JNum 1, JNum 1]) sel (JNum 0)))"
        by (simp_all add: run decoder_74139_logic_eq)
      then show ?thesis by simp
    qed
  qed
qed

lemmas recipe_defs = basic_gates_def not_using_nand_def and_using_nand_def or_using_nand_def
  not_using_nor_def or_using_nor_def and_using_nor_def half_adder_def full_adder_def
  half_subtractor_def full_subtractor_def multiplier_2bit_def binary_gray_def mux_74153_def
  decoder_74139_def comparator_7485_def d_ff_7474_def jk_ff_7476_def counter_mod4_def

lemmas logic_dets = basic_gates_logic_det not_using_nand_logic_det
  and_using_nand_logic_det or_using_nand_logic_det not_using_nor_logic_det
  or_using_nor_logic_det and_using_nor_logic_det half_adder_logic_det
  full_adder_logic_det half_subtractor_logic_det full_subtractor_logic_det
  multiplier_2bit_logic_det binary_gray_logic_det mux_74153_logic_det
  decoder_74139_logic_det comparator_7485_logic_det d_ff_7474_logic_det
  jk_ff_7476_logic_det counter_mod4_logic_det

lemma recipes_cases:
  assumes "(key, r) \<in> set RECIPES"
  shows "r \<in> {basic_gates, not_using_nand, and_using_nand, or_using_nand,
      not_using_nor, or_using_nor, and_using_nor, half_adder, full_adder, half_subtractor,
      full_subtractor, multiplier_2bit, binary_gray, mux_74153, decoder_74139,
      comparator_7485, d_ff_7474, jk_ff_7476, counter_mod4}"
  using assms unfolding RECIPES_def by auto

lemma recipes_logic:
  assumes "(key, r) \<in> set RECIPES"
  shows "\<exists>f. logic r = LFun f \<and> input_determined f"
  using recipes_cases [OF assms]
  by (elim insertE emptyE) (simp_all add: recipe_defs logic_dets)

lemma evaluate_LFun_Return:
  "logic r = LFun f \<Longrightarrow> f i st = (Return a, st') \<Longrightarrow> evaluate r i st = (Return a, st')"
  by (simp add: evaluate_def try_catch_def logic_truthy_def call_logic_def)

lemma evaluate_LFun_Throw:
  "logic r = LFun f \<Longrightarrow> f i st = (Throw err, st') \<Longrightarrow>
   evaluate r i st = (Return (length st'), st' @ [zeros4])"
  by (simp add: evaluate_def try_catch_def logic_truthy_def call_logic_def return_array_eq zeros4_def)

lemma evaluate_LValue:
  "logic r = LValue v \<Longrightarrow> evaluate r i st = (Return (length st), st @ [zeros4])"
  by (simp add: evaluate_def try_catch_def logic_truthy_def call_logic_def return_array_eq zeros4_def)

lemma evaluate_returns: "\<exists>a st'. evaluate r i st = (Return a, st')"
proof (cases "logic r")
  case (LFun f)
  obtain c st' where fc: "f i st = (c, st')" by (cases "f i st")
  show ?thesis
  proof (cases c)
    case (Return a)
    with LFun fc show ?thesis by (auto dest: evaluate_LFun_Return)
  next
    case (Throw err)
    with LFun fc show ?thesis by (auto dest: evaluate_LFun_Throw)
  qed
next
  case (LValue v)
  then show ?thesis by (auto dest: evaluate_LValue)
qed

text \<open>
  The evaluator on a logic function that is determined by its input: it returns a new
  array, changes no array that existed, and the contents of the result are those that
  \<open>run_logic\<close> gives, or the default when \<open>run_logic\<close> throws.
\<close>

lemma evaluate_determined:
  assumes "logic r = LFun f" and "input_determined f"
  shows "\<exists>a st'. evaluate r i st = (Return a, st') \<and> prefix st st' \<and> a < length st'
           \<and> array_at st' a = (case run_logic f (array_at st i) of
                                  Return ys \<Rightarrow> ys | Throw err \<Rightarrow> zeros4)"
proof -
  from assms(2) consider
    (ret) a st' where "f i st = (Return a, st')" "prefix st st'" "a < length st'"
      "run_logic f (array_at st i) = Return (array_at st' a)"
  | (thr) err where "f i st = (Throw err, st)" "run_logic f (array_at st i) = Throw err"
    unfolding input_determined_def by blast
  then show ?thesis
  proof cases
    case ret
    with assms(1) show ?thesis by (auto simp: evaluate_LFun_Return)
  next
    case thr
    with assms(1) have "evaluate r i st = (Return (length st), st @ [zeros4])"
      by (simp add: evaluate_LFun_Throw)
    with thr(2) show ?thesis by simp
  qed
qed

section \<open>Truth-table vectors\<close>

lemmas evaluate_simps = evaluate_def try_catch_def logic_truthy_def call_logic_def
  return_array_eq return_computed_def get_def elem_def

text \<open>
  C1. For the half adder, the inputs (1,1) give (Sum = 0, Cout = 1) and (1,0) give (1,0);
  for the full adder, (A = 1, B = 1, Cin = 1) gives (Sum = 1, Cout = 1) and (1,0,0) gives
  (1,0). The input array may sit anywhere in the store and may have further entries after
  the declared ones (the application always keeps six); the result is a new array, and
  nothing else in the store changes.
\<close>

theorem adder_vectors:
  "inputs half_adder = [''A'', ''B''] \<and> outputs half_adder = [''Sum'', ''Cout'']
 \<and> inputs full_adder = [''A'', ''B'', ''Cin''] \<and> outputs full_adder = [''Sum'', ''Cout'']
 \<and> (array_at st i = map Some [JNum 1, JNum 1] @ rest \<longrightarrow>
      evaluate half_adder i st = (Return (length st), st @ [map Some [JNum 0, JNum 1]]))
 \<and> (array_at st i = map Some [JNum 1, JNum 0] @ rest \<longrightarrow>
      evaluate half_adder i st = (Return (length st), st @ [map Some [JNum 1, JNum 0]]))
 \<and> (array_at st i = map Some [JNum 1, JNum 1, JNum 1] @ rest \<longrightarrow>
      evaluate full_adder i st = (Return (length st), st @ [map Some [JNum 1, JNum 1]]))
 \<and> (array_at st i = map Some [JNum 1, JNum 0, JNum 0] @ rest \<longrightarrow>
      evaluate full_adder i st = (Return (length st), st @ [map Some [JNum 1, JNum 0]]))"
  by (simp add: evaluate_simps half_adder_def half_adder_logic_def full_adder_def
      full_adder_logic_def js_ops)

theorem adder_vectors_witness:
  "evaluate half_adder 0 [map Some [JNum 1, JNum 1]]
     = (Return 1, [map Some [JNum 1, JNum 1], map Some [JNum 0, JNum 1]])
 \<and> evaluate half_adder 0 [map Some [JNum 1, JNum 0]]
     = (Return 1, [map Some [JNum 1, JNum 0], map Some [JNum 1, JNum 0]])
 \<and> evaluate full_adder 0 [map Some [JNum 1, JNum 1, JNum 1]]
     = (Return 1, [map Some [JNum 1, JNum 1, JNum 1], map Some [JNum 1, JNum 1]])
 \<and> evaluate full_adder 0 [map Some [JNum 1, JNum 0, JNum 0, JNum 0, JNum 0, JNum 0]]
     = (Return 1, [map Some [JNum 1, JNum 0, JNum 0, JNum 0, JNum 0, JNum 0],
                   map Some [JNum 1, JNum 0]])"
  using adder_vectors [of "[map Some [JNum 1, JNum 1]]" 0 "[]"]
    adder_vectors [of "[map Some [JNum 1, JNum 0]]" 0 "[]"]
    adder_vectors [of "[map Some [JNum 1, JNum 1, JNum 1]]" 0 "[]"]
    adder_vectors [of "[map Some [JNum 1, JNum 0, JNum 0, JNum 0, JNum 0, JNum 0]]" 0
      "map Some [JNum 0, JNum 0, JNum 0]"]
  by simp

text \<open>
  C2. For the multiplexer \<^verbatim>\<open>mux_74153\<close> with the select inputs A = 1 and B = 1, the output
  is the input 1C3, whatever the inputs 1C0, 1C1 and 1C2 are.
\<close>

theorem mux_select_3:
  "array_at st i = map Some [JNum 1, JNum 1, c0, c1, c2, c3] \<Longrightarrow>
   inputs mux_74153 = [''A'', ''B'', ''1C0'', ''1C1'', ''1C2'', ''1C3'']
 \<and> outputs mux_74153 = [''1Y'']
 \<and> evaluate mux_74153 i st = (Return (length st), st @ [[Some c3]])"
  by (simp add: evaluate_simps mux_74153_def mux_74153_logic_def js_ops)

theorem mux_select_3_witness:
  "array_at [map Some [JNum 1, JNum 1, JNum 1, JNum 1, JNum 1, JNum 0]] 0
     = map Some [JNum 1, JNum 1, JNum 1, JNum 1, JNum 1, JNum 0]
 \<and> evaluate mux_74153 0 [map Some [JNum 1, JNum 1, JNum 1, JNum 1, JNum 1, JNum 0]]
     = (Return 1, [map Some [JNum 1, JNum 1, JNum 1, JNum 1, JNum 1, JNum 0], [Some (JNum 0)]])"
  using mux_select_3 [of "[map Some [JNum 1, JNum 1, JNum 1, JNum 1, JNum 1, JNum 0]]" 0
      "JNum 1" "JNum 1" "JNum 1" "JNum 0"]
  by simp

text \<open>
  C9. For the D flip-flop \<^verbatim>\<open>d_ff_7474\<close> with PRE = 1 and CLR = 1 (neither asserted, both
  being active low), Q is D and /Q is the negation of D, for every D and every CLK.
\<close>

theorem d_ff_tracks_d:
  "array_at st i = map Some [d, clk, JNum 1, JNum 1] \<Longrightarrow>
   inputs d_ff_7474 = [''D'', ''CLK'', ''PRE'', ''CLR''] \<and> outputs d_ff_7474 = [''Q'', ''/Q'']
 \<and> evaluate d_ff_7474 i st = (Return (length st), st @ [map Some [d, JBool (\<not> truthy d)]])"
  by (simp add: evaluate_simps d_ff_7474_def d_ff_7474_logic_def js_ops)

theorem d_ff_tracks_d_witness:
  "array_at [map Some [JNum 1, JNum 0, JNum 1, JNum 1]] 0
     = map Some [JNum 1, JNum 0, JNum 1, JNum 1]
 \<and> evaluate d_ff_7474 0 [map Some [JNum 1, JNum 0, JNum 1, JNum 1]]
     = (Return 1, [map Some [JNum 1, JNum 0, JNum 1, JNum 1], map Some [JNum 1, JBool False]])"
  using d_ff_tracks_d [of "[map Some [JNum 1, JNum 0, JNum 1, JNum 1]]" 0 "JNum 1" "JNum 0"]
  by simp


section \<open>Failure handling of the evaluator\<close>

text \<open>
  C4. The evaluator never throws to its caller. When the \<^verbatim>\<open>logic\<close> field is not a function
  (in particular when it is absent) or when the logic function throws on the given input,
  the result is a new array \<^verbatim>\<open>[0,0,0,0]\<close>.
\<close>

theorem evaluate_catches:
  "(\<exists>a st'. evaluate r i st = (Return a, st'))
 \<and> (logic r = LValue v \<longrightarrow> evaluate r i st = (Return (length st), st @ [zeros4]))
 \<and> (logic r = LFun f \<and> f i st = (Throw err, st1) \<longrightarrow>
      evaluate r i st = (Return (length st1), st1 @ [zeros4]))"
  using evaluate_returns [of r i st]
  by (auto simp: evaluate_LValue evaluate_LFun_Throw)

theorem evaluate_catches_witness:
  "evaluate (half_adder\<lparr>logic := LValue JUndef\<rparr>) 0 [[Some (JNum 1)]]
     = (Return 1, [[Some (JNum 1)], zeros4])
 \<and> evaluate (half_adder\<lparr>logic := LFun (\<lambda>i st. (Throw TypeError, st))\<rparr>) 0 [[Some (JNum 1)]]
     = (Return 1, [[Some (JNum 1)], zeros4])"
  using evaluate_catches [of "half_adder\<lparr>logic := LValue JUndef\<rparr>" 0 "[[Some (JNum 1)]]" JUndef]
    evaluate_catches [of "half_adder\<lparr>logic := LFun (\<lambda>i st. (Throw TypeError, st))\<rparr>" 0
      "[[Some (JNum 1)]]" _ "\<lambda>i st. (Throw TypeError, st)" TypeError "[[Some (JNum 1)]]"]
  by simp

text \<open>
  C3, as the specification states it: an input array whose length differs from the number
  of declared inputs gives an all-zero array of the declared output length. This fails.
  \<^verbatim>\<open>not_using_nand\<close> declares one input and one output; on the empty array its logic reads
  \<^verbatim>\<open>undefined\<close> and returns \<^verbatim>\<open>[true]\<close>. \<^verbatim>\<open>half_adder\<close> declares two inputs; on the six
  entries the application keeps it returns \<^verbatim>\<open>[1, 0]\<close>.
\<close>

theorem arity_mismatch_counterexample:
  "length (array_at [[]] 0) < length (inputs not_using_nand)
 \<and> evaluate not_using_nand 0 [[]] = (Return 1, [[], [Some (JBool True)]])
 \<and> [Some (JBool True)] \<noteq> replicate (length (outputs not_using_nand)) (Some (JNum 0))
 \<and> length (array_at [map Some [JNum 1, JNum 0, JNum 0, JNum 0, JNum 0, JNum 0]] 0)
     \<noteq> length (inputs half_adder)
 \<and> evaluate half_adder 0 [map Some [JNum 1, JNum 0, JNum 0, JNum 0, JNum 0, JNum 0]]
     = (Return 1, [map Some [JNum 1, JNum 0, JNum 0, JNum 0, JNum 0, JNum 0],
                   map Some [JNum 1, JNum 0]])
 \<and> map Some [JNum 1, JNum 0] \<noteq> replicate (length (outputs half_adder)) (Some (JNum 0))"
  by (simp add: evaluate_simps not_using_nand_def not_using_nand_logic_def half_adder_def
      half_adder_logic_def js_ops)

text \<open>
  C3, amended. The evaluator never throws to its caller, whatever the length of the input
  array, and it makes no check of that length: whenever the logic function returns
  normally, its result is the result of the evaluator. The default \<^verbatim>\<open>[0,0,0,0]\<close> has four
  entries whatever the circuit declares, and it is produced only when the logic is not a
  function or throws.
\<close>

theorem evaluate_no_arity_check:
  "(\<exists>a st'. evaluate r i st = (Return a, st'))
 \<and> evaluate r i st =
     (case logic r of
        LFun f \<Rightarrow>
          (case f i st of
             (Return a, st') \<Rightarrow> (Return a, st')
           | (Throw err, st') \<Rightarrow> (Return (length st'), st' @ [zeros4]))
      | LValue v \<Rightarrow> (Return (length st), st @ [zeros4]))"
proof (cases "logic r")
  case (LFun f)
  obtain c st' where fc: "f i st = (c, st')" by (cases "f i st")
  show ?thesis
  proof (cases c)
    case (Return a)
    with LFun fc show ?thesis by (simp add: evaluate_LFun_Return)
  next
    case (Throw err)
    with LFun fc show ?thesis by (simp add: evaluate_LFun_Throw)
  qed
next
  case (LValue v)
  then show ?thesis by (simp add: evaluate_LValue)
qed






lemma plain_number_op [simp]: "plain (number_op f m n)"
  by (simp add: number_op_def split: option.splits)
























section \<open>The library circuits as functions of their input\<close>




text \<open>
  C8. Evaluating a library circuit twice on the same input array gives arrays with the
  same contents. No call changes an array that existed before it: not the input array,
  and the second call does not touch the result of the first. Nothing but the contents of
  the input array decides the result: in any other store, at any other address holding
  the same contents, the result has the same contents again.
\<close>

theorem evaluate_idempotent:
  assumes "(key, r) \<in> set RECIPES" and "i < length st"
  shows "\<exists>a1 st1 a2 st2.
           evaluate r i st = (Return a1, st1) \<and> evaluate r i st1 = (Return a2, st2)
         \<and> array_at st2 a2 = array_at st1 a1
         \<and> prefix st st1 \<and> prefix st1 st2
         \<and> array_at st2 i = array_at st i \<and> array_at st2 a1 = array_at st1 a1
         \<and> (\<forall>st' i'. array_at st' i' = array_at st i \<longrightarrow>
               (\<exists>a' st''. evaluate r i' st' = (Return a', st'') \<and> array_at st'' a' = array_at st1 a1))"
proof -
  from recipes_logic [OF assms(1)] obtain f where f: "logic r = LFun f" "input_determined f"
    by blast
  let ?out = "\<lambda>xs. case run_logic f xs of Return ys \<Rightarrow> ys | Throw err \<Rightarrow> zeros4"
  from evaluate_determined [OF f] obtain a1 st1 where
    1: "evaluate r i st = (Return a1, st1)" "prefix st st1" "a1 < length st1"
       "array_at st1 a1 = ?out (array_at st i)"
    by blast
  from evaluate_determined [OF f] obtain a2 st2 where
    2: "evaluate r i st1 = (Return a2, st2)" "prefix st1 st2" "a2 < length st2"
       "array_at st2 a2 = ?out (array_at st1 i)"
    by blast
  have i1: "array_at st1 i = array_at st i"
    using 1(2) assms(2) by (rule array_at_prefix)
  have "i < length st1" using 1(2) assms(2) by (auto simp: prefix_def)
  then have i2: "array_at st2 i = array_at st1 i"
    using 2(2) by (simp add: array_at_prefix)
  have same: "array_at st2 a2 = array_at st1 a1"
    using 1(4) 2(4) i1 by simp
  have kept: "array_at st2 a1 = array_at st1 a1"
    using 2(2) 1(3) by (rule array_at_prefix)
  have other: "\<exists>a' st''. evaluate r i' st' = (Return a', st'') \<and> array_at st'' a' = array_at st1 a1"
    if "array_at st' i' = array_at st i" for st' i'
  proof -
    from evaluate_determined [OF f] obtain a' st'' where
      3: "evaluate r i' st' = (Return a', st'')" "array_at st'' a' = ?out (array_at st' i')"
      by blast
    from 3(2) that 1(4) have "array_at st'' a' = array_at st1 a1" by simp
    with 3(1) show ?thesis by blast
  qed
  from 1 2 same kept i1 i2 other show ?thesis
    by auto
qed

theorem evaluate_idempotent_witness:
  "(''decoder_74139'', decoder_74139) \<in> set RECIPES
 \<and> 0 < length [map Some [JNum 1, JNum 0, JNum 0]]
 \<and> (\<exists>a1 st1 a2 st2.
       evaluate decoder_74139 0 [map Some [JNum 1, JNum 0, JNum 0]] = (Return a1, st1)
     \<and> evaluate decoder_74139 0 st1 = (Return a2, st2)
     \<and> array_at st2 a2 = array_at st1 a1)"
proof -
  have m: "(''decoder_74139'', decoder_74139) \<in> set RECIPES"
    by (simp add: RECIPES_def)
  have n: "0 < length [map Some [JNum 1, JNum 0, JNum 0]]"
    by simp
  from evaluate_idempotent [OF m n] m n show ?thesis by blast
qed


section \<open>Pin coordinates\<close>

lemma or_default_Some [simp]: "or_default (Some n) n0 = (if n = 0 then n0 else n)"
  by (simp add: or_default_def)

lemma or_default_None [simp]: "or_default None n0 = n0"
  by (simp add: or_default_def)

lemma getCoords_PIN:
  "v \<noteq> NoEnd \<Longrightarrow>
   getCoords ''PIN'' (Some v) chs =
     (case chip_at chs (or_default (field_c v) 0) of
        None \<Rightarrow> def
      | Some chip \<Rightarrow>
          if or_default (field_p v) 1 \<le> maxBottom (chip_type chip)
          then \<lparr>px = OFF_X + of_int (chip_x chip) * CELL + of_int (or_default (field_p v) 1 - 1) * CELL + 5,
                py = OFF_Y + 6 * CELL + (9 / 2) * CELL\<rparr>
          else \<lparr>px = OFF_X + of_int (chip_x chip) * CELL
                      + of_int (maxBottom (chip_type chip) * 2 - or_default (field_p v) 1) * CELL + 5,
                py = OFF_Y + 6 * CELL - (1 / 2) * CELL\<rparr>)"
  by (cases v) (simp_all add: getCoords_def Let_def split: option.splits)

lemmas getCoords_PIN_obj = getCoords_PIN [of "PinObj c p" for c p, simplified]

text \<open>
  C6. For a chip of the list and \<open>N\<close> the number \<^verbatim>\<open>maxBottom\<close> of its type (8 for the types
  7476, 74153, 74139 and 7485, 7 for every other type), a pin \<open>p\<close> in \<open>1 .. 2N\<close> lies on the
  bottom row when \<open>p \<le> N\<close>, at a horizontal offset of \<open>p - 1\<close> cells, and on the top row
  when \<open>p > N\<close>, at an offset of \<open>2N - p\<close> cells. So along the bottom row the pins run from
  left to right, along the top row from right to left, the top row is above the bottom row
  (a smaller \<open>y\<close>), and the pins \<open>p\<close> and \<open>2N + 1 - p\<close> face each other.
\<close>

theorem pin_rows:
  assumes "chip_at chs c = Some chip"
    and "1 \<le> p" and "p \<le> 2 * maxBottom (chip_type chip)"
    and "1 \<le> q" and "q \<le> 2 * maxBottom (chip_type chip)"
  shows "maxBottom (chip_type chip)
           = (if chip_type chip \<in> {''7476'', ''74153'', ''74139'', ''7485''} then 8 else 7)
       \<and> (p \<le> maxBottom (chip_type chip) \<longrightarrow>
            pin_coords chs c p =
              \<lparr>px = OFF_X + of_int (chip_x chip) * CELL + 5 + of_int (p - 1) * CELL,
               py = OFF_Y + 6 * CELL + (9 / 2) * CELL\<rparr>)
       \<and> (maxBottom (chip_type chip) < p \<longrightarrow>
            pin_coords chs c p =
              \<lparr>px = OFF_X + of_int (chip_x chip) * CELL + 5
                     + of_int (2 * maxBottom (chip_type chip) - p) * CELL,
               py = OFF_Y + 6 * CELL - (1 / 2) * CELL\<rparr>)
       \<and> (p < q \<and> q \<le> maxBottom (chip_type chip) \<longrightarrow>
            px (pin_coords chs c p) < px (pin_coords chs c q)
          \<and> py (pin_coords chs c p) = py (pin_coords chs c q))
       \<and> (maxBottom (chip_type chip) < p \<and> p < q \<longrightarrow>
            px (pin_coords chs c q) < px (pin_coords chs c p)
          \<and> py (pin_coords chs c p) = py (pin_coords chs c q))
       \<and> (p \<le> maxBottom (chip_type chip) \<and> maxBottom (chip_type chip) < q \<longrightarrow>
            py (pin_coords chs c q) < py (pin_coords chs c p))
       \<and> (p + q = 2 * maxBottom (chip_type chip) + 1 \<longrightarrow>
            px (pin_coords chs c p) = px (pin_coords chs c q))"
proof -
  have c0: "or_default (Some c) 0 = c" by simp
  have p1: "or_default (Some p) 1 = p" using assms(2) by simp
  have q1: "or_default (Some q) 1 = q" using assms(4) by simp
  have N: "maxBottom (chip_type chip) = 7 \<or> maxBottom (chip_type chip) = 8"
    by (simp add: maxBottom_def)
  have cp: "pin_coords chs c p =
      (if p \<le> maxBottom (chip_type chip)
       then \<lparr>px = OFF_X + of_int (chip_x chip) * CELL + of_int (p - 1) * CELL + 5,
             py = OFF_Y + 6 * CELL + (9 / 2) * CELL\<rparr>
       else \<lparr>px = OFF_X + of_int (chip_x chip) * CELL
                   + of_int (maxBottom (chip_type chip) * 2 - p) * CELL + 5,
             py = OFF_Y + 6 * CELL - (1 / 2) * CELL\<rparr>)"
    unfolding pin_coords_def pinref_def
    using assms(1) by (simp only: getCoords_PIN_obj field_c.simps field_p.simps c0 p1 option.case)
  have cq: "pin_coords chs c q =
      (if q \<le> maxBottom (chip_type chip)
       then \<lparr>px = OFF_X + of_int (chip_x chip) * CELL + of_int (q - 1) * CELL + 5,
             py = OFF_Y + 6 * CELL + (9 / 2) * CELL\<rparr>
       else \<lparr>px = OFF_X + of_int (chip_x chip) * CELL
                   + of_int (maxBottom (chip_type chip) * 2 - q) * CELL + 5,
             py = OFF_Y + 6 * CELL - (1 / 2) * CELL\<rparr>)"
    unfolding pin_coords_def pinref_def
    using assms(1) by (simp only: getCoords_PIN_obj field_c.simps field_p.simps c0 q1 option.case)
  have n: "maxBottom (chip_type chip)
           = (if chip_type chip \<in> {''7476'', ''74153'', ''74139'', ''7485''} then 8 else 7)"
    by (simp add: maxBottom_def)
  have b: "p \<le> maxBottom (chip_type chip) \<longrightarrow>
            pin_coords chs c p =
              \<lparr>px = OFF_X + of_int (chip_x chip) * CELL + 5 + of_int (p - 1) * CELL,
               py = OFF_Y + 6 * CELL + (9 / 2) * CELL\<rparr>"
    by (simp add: cp)
  have t: "maxBottom (chip_type chip) < p \<longrightarrow>
            pin_coords chs c p =
              \<lparr>px = OFF_X + of_int (chip_x chip) * CELL + 5
                     + of_int (2 * maxBottom (chip_type chip) - p) * CELL,
               py = OFF_Y + 6 * CELL - (1 / 2) * CELL\<rparr>"
    by (simp add: cp mult.commute)
  have o1: "p < q \<and> q \<le> maxBottom (chip_type chip) \<longrightarrow>
            px (pin_coords chs c p) < px (pin_coords chs c q)
          \<and> py (pin_coords chs c p) = py (pin_coords chs c q)"
    by (simp add: cp cq CELL_def)
  have o2: "maxBottom (chip_type chip) < p \<and> p < q \<longrightarrow>
            px (pin_coords chs c q) < px (pin_coords chs c p)
          \<and> py (pin_coords chs c p) = py (pin_coords chs c q)"
    by (simp add: cp cq CELL_def)
  have o3: "p \<le> maxBottom (chip_type chip) \<and> maxBottom (chip_type chip) < q \<longrightarrow>
            py (pin_coords chs c q) < py (pin_coords chs c p)"
    by (simp add: cp cq CELL_def)
  have o4: "p + q = 2 * maxBottom (chip_type chip) + 1 \<longrightarrow>
            px (pin_coords chs c p) = px (pin_coords chs c q)"
  proof
    assume s: "p + q = 2 * maxBottom (chip_type chip) + 1"
    show "px (pin_coords chs c p) = px (pin_coords chs c q)"
    proof (cases "p \<le> maxBottom (chip_type chip)")
      case True
      with s have "\<not> q \<le> maxBottom (chip_type chip)" and "maxBottom (chip_type chip) * 2 - q = p - 1"
        by linarith+
      with True show ?thesis by (simp add: cp cq)
    next
      case False
      with s have "q \<le> maxBottom (chip_type chip)" and "maxBottom (chip_type chip) * 2 - p = q - 1"
        by linarith+
      with False show ?thesis by (simp add: cp cq)
    qed
  qed
  from n b t o1 o2 o3 o4 show ?thesis by blast
qed

theorem pin_rows_witness:
  "chip_at (chips mux_74153) 0 = Some (mk_chip ''u1'' ''74153'' 25)
 \<and> maxBottom ''74153'' = 8
 \<and> pin_coords (chips mux_74153) 0 3 = \<lparr>px = 550, py = 375 / 2\<rparr>
 \<and> pin_coords (chips mux_74153) 0 14 = \<lparr>px = 550, py = 225 / 2\<rparr>
 \<and> px (pin_coords (chips mux_74153) 0 3) < px (pin_coords (chips mux_74153) 0 5)
 \<and> px (pin_coords (chips mux_74153) 0 15) < px (pin_coords (chips mux_74153) 0 14)
 \<and> py (pin_coords (chips mux_74153) 0 14) < py (pin_coords (chips mux_74153) 0 3)"
proof -
  have c: "chip_at (chips mux_74153) 0 = Some (mk_chip ''u1'' ''74153'' 25)"
    by (simp add: mux_74153_def chip_at_def)
  have n: "maxBottom (chip_type (mk_chip ''u1'' ''74153'' 25)) = 8"
    by (simp add: mk_chip_def maxBottom_def)
  have x: "chip_x (mk_chip ''u1'' ''74153'' 25) = 25"
    by (simp add: mk_chip_def)
  have m: "maxBottom ''74153'' = 8"
    by (simp add: maxBottom_def)
  from pin_rows [OF c, of 3 14] pin_rows [OF c, of 3 5] pin_rows [OF c, of 14 15] c m
  show ?thesis
    unfolding n x by (auto simp: OFF_X_def OFF_Y_def CELL_def)
qed


section \<open>Wires\<close>

text \<open>
  C7, as the specification states it: a wire with an end whose \<open>x\<close> or \<open>y\<close> is 0 is not
  drawn. This fails for \<open>y\<close>: only \<open>x\<close> is tested. The end \<^verbatim>\<open>{x: 10, y: 0}\<close> is drawn.
\<close>

theorem wire_zero_y_counterexample:
  "y_of \<lparr>x_of = CNum 10, y_of = CNum 0\<rparr> = CNum 0
 \<and> Wire (Some \<lparr>x_of = CNum 10, y_of = CNum 0\<rparr>) (Some \<lparr>x_of = CNum 20, y_of = CNum 30\<rparr>)
       ''#22c55e''
     = Some \<lparr>path_d = [MoveTo (CNum 10) (CNum 0), LineTo (CNum 10) (CNum 15),
                       LineTo (CNum 20) (CNum 15), LineTo (CNum 20) (CNum 30)],
             stroke = ''#22c55e'',
             dots = [\<lparr>x_of = CNum 10, y_of = CNum 0\<rparr>, \<lparr>x_of = CNum 20, y_of = CNum 30\<rparr>]\<rparr>"
  by (simp add: Wire_def Let_def coord_op_def js_rem_def)

text \<open>
  C7, amended. The router draws nothing when an end is missing or when the \<open>x\<close> of an end
  is falsy, that is 0, \<^verbatim>\<open>NaN\<close> or absent. In every other case it draws the wire, and
  when the four components are finite numbers, whatever the two \<open>y\<close> are (0 included),
  the path has three segments from the first end to the second: a vertical one, a
  horizontal one and a vertical one.
\<close>

theorem wire_router:
  "Wire None p2 col = None
 \<and> Wire p1 None col = None
 \<and> (coord_falsy v \<longleftrightarrow> v = CUndef \<or> v = CNaN \<or> v = CNum 0)
 \<and> (coord_falsy (x_of a) \<or> coord_falsy (x_of b) \<longrightarrow> Wire (Some a) (Some b) col = None)
 \<and> (\<not> coord_falsy (x_of a) \<and> \<not> coord_falsy (x_of b) \<longrightarrow> Wire (Some a) (Some b) col \<noteq> None)
 \<and> (x_of a = CNum x1 \<and> x1 \<noteq> 0 \<and> x_of b = CNum x2 \<and> x2 \<noteq> 0
      \<and> y_of a = CNum y1 \<and> y_of b = CNum y2 \<longrightarrow>
      (\<exists>g s1 s2 s3. Wire (Some a) (Some b) col = Some g
         \<and> segments (path_d g) = [s1, s2, s3]
         \<and> vertical s1 \<and> horizontal s2 \<and> vertical s3
         \<and> fst s1 = (CNum x1, CNum y1) \<and> snd s1 = fst s2 \<and> snd s2 = fst s3
         \<and> snd s3 = (CNum x2, CNum y2)))"
proof -
  have f: "coord_falsy v \<longleftrightarrow> v = CUndef \<or> v = CNaN \<or> v = CNum 0"
    by (cases v) simp_all
  have n1: "Wire None p2 col = None" and n2: "Wire p1 None col = None"
    by (cases p1; simp add: Wire_def)+
  have z: "Wire (Some a) (Some b) col = None" if "coord_falsy (x_of a) \<or> coord_falsy (x_of b)"
    using that by (auto simp: Wire_def)
  have d: "Wire (Some a) (Some b) col \<noteq> None"
    if "\<not> coord_falsy (x_of a) \<and> \<not> coord_falsy (x_of b)"
    using that by (simp add: Wire_def Let_def)
  have p: "\<exists>g s1 s2 s3. Wire (Some a) (Some b) col = Some g
         \<and> segments (path_d g) = [s1, s2, s3]
         \<and> vertical s1 \<and> horizontal s2 \<and> vertical s3
         \<and> fst s1 = (CNum x1, CNum y1) \<and> snd s1 = fst s2 \<and> snd s2 = fst s3
         \<and> snd s3 = (CNum x2, CNum y2)"
    if "x_of a = CNum x1 \<and> x1 \<noteq> 0 \<and> x_of b = CNum x2 \<and> x2 \<noteq> 0
      \<and> y_of a = CNum y1 \<and> y_of b = CNum y2"
    using that by (simp add: Wire_def Let_def coord_op_def)
  from f n1 n2 z d p show ?thesis by blast
qed

theorem wire_router_witness:
  "Wire (Some \<lparr>x_of = CNum 0, y_of = CNum 30\<rparr>) (Some \<lparr>x_of = CNum 20, y_of = CNum 30\<rparr>) ''#22c55e''
     = None
 \<and> Wire (Some \<lparr>x_of = CNum 20, y_of = CNum 30\<rparr>) (Some \<lparr>x_of = CNaN, y_of = CNum 30\<rparr>) ''#22c55e''
     = None
 \<and> Wire (Some \<lparr>x_of = CNum 20, y_of = CNaN\<rparr>) (Some \<lparr>x_of = CNum 5, y_of = CNum 30\<rparr>) ''#22c55e''
     \<noteq> None
 \<and> (\<exists>g s1 s2 s3.
       Wire (Some \<lparr>x_of = CNum 10, y_of = CNum 0\<rparr>) (Some \<lparr>x_of = CNum 20, y_of = CNum 30\<rparr>)
         ''#22c55e'' = Some g
     \<and> segments (path_d g) = [s1, s2, s3] \<and> vertical s1 \<and> horizontal s2 \<and> vertical s3)"
  using wire_router [where a = "\<lparr>x_of = CNum 0, y_of = CNum 30\<rparr>"
      and b = "\<lparr>x_of = CNum 20, y_of = CNum 30\<rparr>" and col = "''#22c55e''" and ?p1.0 = None
      and ?p2.0 = None and v = CNaN and ?x1.0 = 1 and ?x2.0 = 1 and ?y1.0 = 0 and ?y2.0 = 0]
    wire_router [where a = "\<lparr>x_of = CNum 20, y_of = CNum 30\<rparr>"
      and b = "\<lparr>x_of = CNaN, y_of = CNum 30\<rparr>" and col = "''#22c55e''" and ?p1.0 = None
      and ?p2.0 = None and v = CNaN and ?x1.0 = 1 and ?x2.0 = 1 and ?y1.0 = 0 and ?y2.0 = 0]
    wire_router [where a = "\<lparr>x_of = CNum 20, y_of = CNaN\<rparr>"
      and b = "\<lparr>x_of = CNum 5, y_of = CNum 30\<rparr>" and col = "''#22c55e''" and ?p1.0 = None
      and ?p2.0 = None and v = CNaN and ?x1.0 = 1 and ?x2.0 = 1 and ?y1.0 = 0 and ?y2.0 = 0]
    wire_router [where a = "\<lparr>x_of = CNum 10, y_of = CNum 0\<rparr>"
      and b = "\<lparr>x_of = CNum 20, y_of = CNum 30\<rparr>" and col = "''#22c55e''" and ?p1.0 = None
      and ?p2.0 = None and v = CNaN and ?x1.0 = 10 and ?x2.0 = 20 and ?y1.0 = 0 and ?y2.0 = 30]
  by simp blast

lemma pin_px_nonzero:
  assumes "v \<noteq> NoEnd" and "chip_at chs (or_default (field_c v) 0) \<noteq> None"
  shows "px (getCoords ''PIN'' (Some v) chs) \<noteq> 0"
proof -
  from assms(2) obtain chip where ch: "chip_at chs (or_default (field_c v) 0) = Some chip"
    by blast
  have nz: "OFF_X + of_int xx * CELL + of_int k * CELL + 5 \<noteq> (0::rat)" for xx k :: int
  proof -
    have "OFF_X + of_int xx * CELL + of_int k * CELL + 5 = (of_int (145 + 15 * (xx + k)) :: rat)"
      by (simp add: OFF_X_def CELL_def algebra_simps)
    moreover have "145 + 15 * (xx + k) \<noteq> 0" by presburger
    ultimately show ?thesis by (simp only: of_int_eq_0_iff not_False_eq_True)
  qed
  show ?thesis
    by (cases "or_default (field_p v) 1 \<le> maxBottom (chip_type chip)")
       (simp_all only: getCoords_PIN [OF assms(1)] ch option.case if_True if_False
          point.select_convs nz not_False_eq_True)
qed

lemma rail_sw_led_px_nonzero:
  "px (getCoords ''RAIL_VCC'' None []) \<noteq> 0"
  "px (getCoords ''RAIL_GND'' None []) \<noteq> 0"
  "px (getCoords ''SW'' (Some (Tok str)) []) \<noteq> 0"
  "px (getCoords ''LED'' (Some (Tok str)) []) \<noteq> 0"
proof -
  show "px (getCoords ''RAIL_VCC'' None []) \<noteq> 0" "px (getCoords ''RAIL_GND'' None []) \<noteq> 0"
    "px (getCoords ''LED'' (Some (Tok str)) []) \<noteq> 0"
    by (simp_all add: getCoords_def OFF_X_def CELL_def)
  have "OFF_X + (20 + of_int k * 2) * CELL = (of_int (440 + 30 * k) :: rat)" for k :: int
    by (simp add: OFF_X_def CELL_def algebra_simps)
  moreover have "440 + 30 * k \<noteq> 0" for k :: int by presburger
  ultimately have "OFF_X + (20 + of_int k * 2) * CELL \<noteq> (0 :: rat)" for k :: int
    by (simp only: of_int_eq_0_iff not_False_eq_True)
  then show "px (getCoords ''SW'' (Some (Tok str)) []) \<noteq> 0"
    by (simp add: getCoords_def)
qed

lemma px_def [simp]: "px def = 0"
  by (simp add: def_def)

lemma getCoords_PIN_NoEnd [simp]: "getCoords ''PIN'' (Some NoEnd) chs = def"
  by (simp add: getCoords_def)

lemma getCoords_PIN_missing:
  "chip_at chs (or_default (field_c v) 0) = None \<Longrightarrow> getCoords ''PIN'' (Some v) chs = def"
  by (cases "v = NoEnd") (simp_all add: getCoords_PIN)

lemma pin_px_zero_iff:
  "px (getCoords ''PIN'' (Some v) chs) = 0 \<longleftrightarrow>
     v = NoEnd \<or> chip_at chs (or_default (field_c v) 0) = None"
proof
  assume z: "px (getCoords ''PIN'' (Some v) chs) = 0"
  show "v = NoEnd \<or> chip_at chs (or_default (field_c v) 0) = None"
  proof (rule ccontr)
    assume "\<not> (v = NoEnd \<or> chip_at chs (or_default (field_c v) 0) = None)"
    then have "px (getCoords ''PIN'' (Some v) chs) \<noteq> 0" by (simp add: pin_px_nonzero)
    with z show False by contradiction
  qed
next
  assume "v = NoEnd \<or> chip_at chs (or_default (field_c v) 0) = None"
  then show "px (getCoords ''PIN'' (Some v) chs) = 0"
    by (auto simp: getCoords_PIN_missing)
qed

lemma resolve_s_px: "px (resolve_s chs v) = 0 \<longleftrightarrow>
   (v \<noteq> Tok ''VCC'' \<and> v \<noteq> Tok ''GND'' \<and> \<not> is_string_including v ''SW''
    \<and> (v = NoEnd \<or> chip_at chs (or_default (field_c v) 0) = None))"
  by (cases v) (simp_all add: resolve_s_def is_string_including_def pin_px_zero_iff
      rail_sw_led_px_nonzero)

lemma resolve_e_px: "px (resolve_e chs v) = 0 \<longleftrightarrow>
   (\<not> is_string_including v ''LED''
    \<and> (v = NoEnd \<or> chip_at chs (or_default (field_c v) 0) = None))"
  by (cases v) (simp_all add: resolve_e_def is_string_including_def pin_px_zero_iff
      rail_sw_led_px_nonzero)

lemma render_wire_None: "render_wire chs w = None \<longleftrightarrow>
   px (resolve_s chs (wire_s w)) = 0 \<or> px (resolve_e chs (wire_e w)) = 0"
  by (simp add: render_wire_def Wire_def Let_def as_xy_def)

lemma drawn_wires_append: "drawn_wires chs (ws @ ws') = drawn_wires chs ws @ drawn_wires chs ws'"
  by (simp add: drawn_wires_def)

lemma drawn_wires_Cons:
  "drawn_wires chs (w # ws) = (case render_wire chs w of None \<Rightarrow> [] | Some g \<Rightarrow> [g]) @ drawn_wires chs ws"
  by (simp add: drawn_wires_def)

text \<open>
  C5, as the specification states it: a wire with an end on a pin outside \<open>1 .. maxPin\<close> is
  not drawn. This fails: the pin number is never compared with the size of the package.
  The end \<^verbatim>\<open>{c: 0, p: 20}\<close> on a 7408, which has 14 pins, gets a coordinate to the left of
  the chip, and the wire is drawn.
\<close>

theorem pin_out_of_range_counterexample:
  "\<not> (1 \<le> (20::int) \<and> 20 \<le> 2 * maxBottom ''7408'')
 \<and> chip_at [mk_chip ''u1'' ''7408'' 20] 0 = Some (mk_chip ''u1'' ''7408'' 20)
 \<and> render_wire [mk_chip ''u1'' ''7408'' 20] (MkWire (Tok ''SW_0'') (pinref 0 20) ''WIRE_BLUE'')
     = Some \<lparr>path_d = [MoveTo (CNum 440) (CNum 270), LineTo (CNum 440) (CNum (765 / 4)),
                       LineTo (CNum 355) (CNum (765 / 4)), LineTo (CNum 355) (CNum (225 / 2))],
             stroke = ''#3b82f6'',
             dots = [\<lparr>x_of = CNum 440, y_of = CNum 270\<rparr>,
                     \<lparr>x_of = CNum 355, y_of = CNum (225 / 2)\<rparr>]\<rparr>"
  by (simp add: maxBottom_def chip_at_def mk_chip_def render_wire_def resolve_s_def
      resolve_e_def is_string_including_def getCoords_def pinref_def Wire_def Let_def as_xy_def
      coord_op_def wire_color_def color_of_def COLORS_def parseInt_def nth_opt_def is_space_def
      is_digit_def digit_of_def digits_value_def OFF_X_def OFF_Y_def CELL_def js_rem_def)

text \<open>
  C5, amended. Every wire with an end \<^verbatim>\<open>{c, p}\<close> whose chip index is outside the list of
  chips is left out, and so is a wire that lacks an end. Each wire is rendered by itself,
  so the wires that are drawn are the same with and without a wire that is left out. The
  pin number excludes nothing: with chip positions and pin numbers that are integers, a
  wire between pins of chips that exist is drawn whatever the two pin numbers are.
\<close>

theorem missing_chip_wire_skipped:
  "(chip_at chs (or_default c 0) = None \<longrightarrow>
      render_wire chs (MkWire (PinObj c p) e col) = None
    \<and> render_wire chs (MkWire s (PinObj c p) col) = None)
 \<and> render_wire chs (MkWire NoEnd e col) = None
 \<and> render_wire chs (MkWire s NoEnd col) = None
 \<and> (chip_at chs (or_default c 0) \<noteq> None \<and> chip_at chs (or_default c' 0) \<noteq> None \<longrightarrow>
      render_wire chs (MkWire (PinObj c p) (PinObj c' p') col) \<noteq> None)
 \<and> render_wires (r\<lparr>wires := ws @ w # ws'\<rparr>)
     = render_wires (r\<lparr>wires := ws\<rparr>) @ render_wire (chips r) w # render_wires (r\<lparr>wires := ws'\<rparr>)
 \<and> (render_wire chs w = None \<longrightarrow> drawn_wires chs (ws @ w # ws') = drawn_wires chs (ws @ ws'))"
proof -
  have a: "render_wire chs (MkWire (PinObj c p) e col) = None
    \<and> render_wire chs (MkWire s (PinObj c p) col) = None"
    if "chip_at chs (or_default c 0) = None"
    using that by (simp add: render_wire_None resolve_s_px resolve_e_px is_string_including_def)
  have n: "render_wire chs (MkWire NoEnd e col) = None"
    "render_wire chs (MkWire s NoEnd col) = None"
    by (simp_all add: render_wire_None resolve_s_px resolve_e_px is_string_including_def)
  have b: "render_wire chs (MkWire (PinObj c p) (PinObj c' p') col) \<noteq> None"
    if "chip_at chs (or_default c 0) \<noteq> None" "chip_at chs (or_default c' 0) \<noteq> None"
    using that by (simp add: render_wire_None resolve_s_px resolve_e_px)
  have d: "render_wires (r\<lparr>wires := ws @ w # ws'\<rparr>)
     = render_wires (r\<lparr>wires := ws\<rparr>) @ render_wire (chips r) w # render_wires (r\<lparr>wires := ws'\<rparr>)"
    by (simp add: render_wires_def)
  have g: "drawn_wires chs (ws @ w # ws') = drawn_wires chs (ws @ ws')"
    if "render_wire chs w = None"
    using that by (simp add: drawn_wires_append drawn_wires_Cons)
  from a n b d g show ?thesis by blast
qed

theorem missing_chip_wire_skipped_witness:
  "chip_at (chips not_using_nand) (or_default (Some 1) 0) = None
 \<and> render_wire (chips not_using_nand) (MkWire (Tok ''SW_0'') (PinObj (Some 1) (Some 1)) ''WIRE_BLUE'')
     = None
 \<and> drawn_wires (chips not_using_nand)
       (wires not_using_nand @ MkWire (Tok ''SW_0'') (PinObj (Some 1) (Some 1)) ''WIRE_BLUE'' # [])
     = drawn_wires (chips not_using_nand) (wires not_using_nand @ [])
 \<and> chip_at (chips not_using_nand) (or_default (Some 0) 0) \<noteq> None
 \<and> render_wire (chips not_using_nand)
       (MkWire (PinObj (Some 0) (Some 20)) (PinObj (Some 0) (Some 0)) ''WIRE_BLUE'') \<noteq> None"
proof -
  have m: "chip_at (chips not_using_nand) (or_default (Some 1) 0) = None"
    by (simp add: not_using_nand_def chip_at_def)
  have k: "chip_at (chips not_using_nand) (or_default (Some 0) 0) \<noteq> None"
    by (simp add: not_using_nand_def chip_at_def)
  from m k
    missing_chip_wire_skipped [where chs = "chips not_using_nand"
      and w = "MkWire (Tok ''SW_0'') (PinObj (Some 1) (Some 1)) ''WIRE_BLUE''"
      and c = "Some 1" and p = "Some 1" and s = "Tok ''SW_0''" and col = "''WIRE_BLUE''"
      and ws = "wires not_using_nand" and ws' = "[]"]
    missing_chip_wire_skipped [where chs = "chips not_using_nand"
      and c = "Some 0" and p = "Some 20" and c' = "Some 0" and p' = "Some 0"
      and col = "''WIRE_BLUE''"]
  show ?thesis by blast
qed

end
